theory Spec2Isabelle
  imports Main
begin

section \<open>JavaScript values\<close>

text \<open>
  The executor is written against values of type \<open>any\<close>: tool arguments, backend
  responses, baskets and search results are whatever JSON the peer sent, and the
  declared TypeScript types are not checked at run time.  The model therefore carries
  JavaScript values.  Numbers are the integers (identifiers, quantities and counts are
  the only numbers the executor inspects or prints), printed in plain decimal; a
  string is a list of characters and its length their number; an object is the list
  of its properties, read with \<open>map_of\<close>.
\<close>

datatype jsval =
    JUndefined
  | JNull
  | JBool bool
  | JNum int
  | JStr string
  | JArr "jsval list"
  | JObj "(string \<times> jsval) list"

text \<open>Truthiness, as used by \<open>!x\<close>, \<open>x || y\<close> and \<open>x ? a : b\<close>.\<close>

fun truthy :: "jsval \<Rightarrow> bool" where
  "truthy JUndefined = False"
| "truthy JNull = False"
| "truthy (JBool b) = b"
| "truthy (JNum n) = (n \<noteq> 0)"
| "truthy (JStr s) = (s \<noteq> [])"
| "truthy (JArr xs) = True"
| "truthy (JObj kvs) = True"

text \<open>\<open>a || b\<close> and \<open>a ?? b\<close>.\<close>

definition js_or :: "jsval \<Rightarrow> jsval \<Rightarrow> jsval" where
  "js_or a b = (if truthy a then a else b)"

definition nullish_or :: "jsval \<Rightarrow> jsval \<Rightarrow> jsval" where
  "nullish_or a b = (if a = JUndefined \<or> a = JNull then b else a)"

definition isArray :: "jsval \<Rightarrow> bool" where
  "isArray v = (case v of JArr xs \<Rightarrow> True | _ \<Rightarrow> False)"

subsection \<open>Printing\<close>

definition digit :: "nat \<Rightarrow> char" where
  "digit n = ''0123456789'' ! n"

fun show_nat :: "nat \<Rightarrow> string" where
  "show_nat n = (if n < 10 then [digit n] else show_nat (n div 10) @ [digit (n mod 10)])"

declare show_nat.simps [simp del]

definition show_int :: "int \<Rightarrow> string" where
  "show_int i = (if i < 0 then ''-'' @ show_nat (nat (- i)) else show_nat (nat i))"

fun intercalate :: "string \<Rightarrow> string list \<Rightarrow> string" where
  "intercalate sep [] = []"
| "intercalate sep [x] = x"
| "intercalate sep (x # y # ys) = x @ sep @ intercalate sep (y # ys)"

text \<open>
  \<open>String(v)\<close>, the conversion a template literal applies.  An array prints its
  elements separated by commas, with \<open>null\<close> and \<open>undefined\<close> printed as nothing.
\<close>

fun toString :: "jsval \<Rightarrow> string" where
  "toString JUndefined = ''undefined''"
| "toString JNull = ''null''"
| "toString (JBool b) = (if b then ''true'' else ''false'')"
| "toString (JNum n) = show_int n"
| "toString (JStr s) = s"
| "toString (JArr xs) =
     intercalate '','' (map (\<lambda>x. if x = JUndefined \<or> x = JNull then [] else toString x) xs)"
| "toString (JObj kvs) = ''[object Object]''"

text \<open>\<open>xs.join(sep)\<close>.\<close>

definition join :: "jsval list \<Rightarrow> string \<Rightarrow> string" where
  "join xs sep =
     intercalate sep (map (\<lambda>x. if x = JUndefined \<or> x = JNull then [] else toString x) xs)"

text \<open>\<open>s.includes(m)\<close> on strings.\<close>

fun starts_with :: "string \<Rightarrow> string \<Rightarrow> bool" where
  "starts_with s [] = True"
| "starts_with [] (c # m) = False"
| "starts_with (d # s) (c # m) = (d = c \<and> starts_with s m)"

fun str_includes :: "string \<Rightarrow> string \<Rightarrow> bool" where
  "str_includes [] m = (m = [])"
| "str_includes (c # s) m = (starts_with (c # s) m \<or> str_includes s m)"

subsection \<open>Errors and property access\<close>

text \<open>
  A thrown value is an error object; the code only ever reads its \<open>message\<close>.
  \<open>Error m\<close> stands for any built-in error (\<open>Error\<close>, \<open>TypeError\<close>, \<open>SyntaxError\<close>)
  with message \<open>m\<close>; a \<open>ZodError\<close> carries the issues of a failed schema parse.
\<close>

datatype zod_issue = InvalidType (expected: string) (received: string) (path: "jsval list")

datatype error = Error string | ZodError "zod_issue list"

definition cannot_read :: "jsval \<Rightarrow> string \<Rightarrow> error" where
  "cannot_read v k =
     Error (''Cannot read properties of '' @ toString v @ '' (reading '' @ [CHR 0x27] @ k
            @ [CHR 0x27] @ '')'')"

definition not_a_function :: "string \<Rightarrow> error" where
  "not_a_function what = Error (what @ '' is not a function'')"

text \<open>
  \<open>v.k\<close> for the property names the code reads from data: reading from \<open>null\<close> or
  \<open>undefined\<close> throws, an array or a string has its \<open>length\<close>, and a missing
  property is \<open>undefined\<close> (none of the other names read is a built-in property of
  a string, number, boolean or array).
\<close>

fun getProp :: "jsval \<Rightarrow> string \<Rightarrow> error + jsval" where
  "getProp JUndefined k = Inl (cannot_read JUndefined k)"
| "getProp JNull k = Inl (cannot_read JNull k)"
| "getProp (JObj kvs) k = Inr (case map_of kvs k of Some v \<Rightarrow> v | None \<Rightarrow> JUndefined)"
| "getProp (JArr xs) k = Inr (if k = ''length'' then JNum (int (length xs)) else JUndefined)"
| "getProp (JStr s) k = Inr (if k = ''length'' then JNum (int (length s)) else JUndefined)"
| "getProp (JBool b) k = Inr JUndefined"
| "getProp (JNum n) k = Inr JUndefined"

text \<open>The property \<open>k\<close> of an object given by its property list.\<close>

definition field :: "(string \<times> jsval) list \<Rightarrow> string \<Rightarrow> jsval" where
  "field kvs k = (case map_of kvs k of Some v \<Rightarrow> v | None \<Rightarrow> JUndefined)"

text \<open>
  \<open>v > 0\<close>.  How JavaScript reads a number from a string is not fixed here: \<open>pos s\<close>
  says whether the string \<open>s\<close> denotes a number greater than zero.  An array is
  compared through its string form, an object is never greater than zero.
\<close>

fun gt_zero :: "(string \<Rightarrow> bool) \<Rightarrow> jsval \<Rightarrow> bool" where
  "gt_zero pos (JNum n) = (0 < n)"
| "gt_zero pos (JBool b) = b"
| "gt_zero pos (JStr s) = pos s"
| "gt_zero pos (JArr xs) = pos (toString (JArr xs))"
| "gt_zero pos JUndefined = False"
| "gt_zero pos JNull = False"
| "gt_zero pos (JObj kvs) = False"

text \<open>\<open>xs.map((item) => item.k)\<close>: the first item that cannot be read throws.\<close>

fun map_prop :: "jsval list \<Rightarrow> string \<Rightarrow> error + jsval list" where
  "map_prop [] k = Inr []"
| "map_prop (x # xs) k =
     (case getProp x k of
        Inl e \<Rightarrow> Inl e
      | Inr v \<Rightarrow> (case map_prop xs k of Inl e \<Rightarrow> Inl e | Inr vs \<Rightarrow> Inr (v # vs)))"

text \<open>\<open>xs.find((item) => item.menuItemId === id)\<close>.\<close>

fun find_by_id :: "jsval list \<Rightarrow> jsval \<Rightarrow> error + jsval" where
  "find_by_id [] i = Inr JUndefined"
| "find_by_id (x # xs) i =
     (case getProp x ''menuItemId'' of
        Inl e \<Rightarrow> Inl e
      | Inr v \<Rightarrow> if v = i then Inr x else find_by_id xs i)"

text \<open>\<open>total.toFixed(2)\<close>: only a number has the method.\<close>

definition toFixed2 :: "jsval \<Rightarrow> error + string" where
  "toFixed2 v = (case v of JNum n \<Rightarrow> Inr (show_int n @ ''.00'')
                 | _ \<Rightarrow> Inl (not_a_function ''total.toFixed''))"

text \<open>
  The value a JSON text written by \<open>JSON.stringify\<close> denotes when it is parsed
  again: a property whose value is \<open>undefined\<close> is left out, \<open>undefined\<close> in an
  array becomes \<open>null\<close>.
\<close>

fun jsonify :: "jsval \<Rightarrow> jsval" where
  "jsonify (JArr xs) = JArr (map (\<lambda>x. if x = JUndefined then JNull else jsonify x) xs)"
| "jsonify (JObj kvs) =
     JObj (map (\<lambda>kv. (fst kv, jsonify (snd kv))) (filter (\<lambda>kv. snd kv \<noteq> JUndefined) kvs))"
| "jsonify JUndefined = JUndefined"
| "jsonify JNull = JNull"
| "jsonify (JBool b) = JBool b"
| "jsonify (JNum n) = JNum n"
| "jsonify (JStr s) = JStr s"

definition json_elem :: "jsval \<Rightarrow> jsval" where
  "json_elem x = (if x = JUndefined then JNull else jsonify x)"

text \<open>A value with no \<open>undefined\<close> in it, as every parsed JSON text is.\<close>

fun is_json :: "jsval \<Rightarrow> bool" where
  "is_json JUndefined = False"
| "is_json (JArr xs) = (\<forall>x \<in> set xs. is_json x)"
| "is_json (JObj kvs) = (\<forall>kv \<in> set kvs. is_json (snd kv))"
| "is_json JNull = True"
| "is_json (JBool b) = True"
| "is_json (JNum n) = True"
| "is_json (JStr s) = True"

section \<open>Argument schemas (zod)\<close>

text \<open>
  The schemas are built from \<open>z.object\<close>, \<open>z.string\<close>, \<open>z.number\<close>, \<open>z.array\<close> and
  \<open>.optional()\<close>.  A schema maps the path of a value and the value to the issues it
  raises; \<open>parse\<close> throws a \<open>ZodError\<close> with all issues, or returns the properties
  named by the shape (other properties are stripped).
\<close>

definition parsedType :: "jsval \<Rightarrow> string" where
  "parsedType v = (case v of
       JUndefined \<Rightarrow> ''undefined'' | JNull \<Rightarrow> ''null'' | JBool b \<Rightarrow> ''boolean''
     | JNum n \<Rightarrow> ''number'' | JStr s \<Rightarrow> ''string'' | JArr xs \<Rightarrow> ''array''
     | JObj kvs \<Rightarrow> ''object'')"

type_synonym schema = "jsval list \<Rightarrow> jsval \<Rightarrow> zod_issue list"

definition z_string :: schema where
  "z_string p v = (case v of JStr s \<Rightarrow> [] | _ \<Rightarrow> [InvalidType ''string'' (parsedType v) p])"

definition z_number :: schema where
  "z_number p v = (case v of JNum n \<Rightarrow> [] | _ \<Rightarrow> [InvalidType ''number'' (parsedType v) p])"

definition z_optional :: "schema \<Rightarrow> schema" where
  "z_optional sch p v = (if v = JUndefined then [] else sch p v)"

definition z_array :: "schema \<Rightarrow> schema" where
  "z_array sch p v = (case v of
       JArr xs \<Rightarrow> concat (map (\<lambda>ix. sch (p @ [JNum (int (fst ix))]) (snd ix)) (enumerate 0 xs))
     | _ \<Rightarrow> [InvalidType ''array'' (parsedType v) p])"

definition z_object_parse :: "(string \<times> schema) list \<Rightarrow> jsval \<Rightarrow> error + (string \<times> jsval) list" where
  "z_object_parse shape v = (case v of
       JObj kvs \<Rightarrow>
         (let issues = concat (map (\<lambda>ks. (snd ks) [JStr (fst ks)] (field kvs (fst ks))) shape)
          in if issues = [] then Inr (map (\<lambda>ks. (fst ks, field kvs (fst ks))) shape)
             else Inl (ZodError issues))
     | _ \<Rightarrow> Inl (ZodError [InvalidType ''object'' (parsedType v) []]))"

definition searchMenuSchema :: "(string \<times> schema) list" where
  "searchMenuSchema = [(''query'', z_string)]"

definition addToBasketSchema :: "(string \<times> schema) list" where
  "addToBasketSchema =
     [(''menuItemId'', z_number),
      (''quantity'', z_optional z_number),
      (''menuItemOptionSetItems'', z_optional (z_array z_number))]"

definition removeFromBasketSchema :: "(string \<times> schema) list" where
  "removeFromBasketSchema = [(''menuItemId'', z_number), (''quantity'', z_optional z_number)]"

definition submitOrderSchema :: "(string \<times> schema) list" where
  "submitOrderSchema = [(''paymentAccountId'', z_optional z_number)]"

definition sendOtpSchema :: "(string \<times> schema) list" where
  "sendOtpSchema = [(''phoneNumber'', z_string)]"

definition verifyOtpSchema :: "(string \<times> schema) list" where
  "verifyOtpSchema = [(''phoneNumber'', z_string), (''code'', z_string)]"

text \<open>A destructuring default, \<open>const { quantity = 1 } = ...\<close>.\<close>

definition dflt :: "jsval \<Rightarrow> jsval \<Rightarrow> jsval" where
  "dflt v d = (if v = JUndefined then d else v)"

section \<open>Session Store\<close>

record session_state =
  chatId :: jsval
  authToken :: jsval
  phoneNumber :: jsval
  searchResults :: jsval

text \<open>
  The cache file as startup finds it: missing, unreadable, holding text that is not
  JSON, or holding a JSON text that denotes a value.  Of such a value the store only
  ever reads the four properties of the session state; the model carries no others.
\<close>

datatype cache_file = Missing | Unreadable | Malformed | Snapshot jsval

record request =
  action :: string
  args :: "jsval list"
  authorization :: "string option"

text \<open>
  What a tool call can change: the session state in memory, the cache file, and the
  requests sent to the backend so far.  \<open>writable\<close> says whether writing the cache
  file succeeds.
\<close>

record world =
  state :: session_state
  cache :: cache_file
  writable :: bool
  sent :: "request list"

definition initial_state :: session_state where
  "initial_state = \<lparr>chatId = JNull, authToken = JNull, phoneNumber = JNull,
                    searchResults = JArr []\<rparr>"

text \<open>The property \<open>k\<close> of \<open>{ ...state, ...cached }\<close>, where \<open>d\<close> is \<open>state.k\<close>.\<close>

definition spread_field :: "jsval \<Rightarrow> string \<Rightarrow> jsval \<Rightarrow> jsval" where
  "spread_field cached k d = (case cached of
       JObj kvs \<Rightarrow> (case map_of kvs k of Some v \<Rightarrow> v | None \<Rightarrow> d)
     | _ \<Rightarrow> d)"

text \<open>Module initialisation: the state after the cache has been looked for.\<close>

definition load_state :: "cache_file \<Rightarrow> session_state" where
  "load_state f = (case f of
       Snapshot cached \<Rightarrow>
         \<lparr>chatId = spread_field cached ''chatId'' (chatId initial_state),
          authToken = spread_field cached ''authToken'' (authToken initial_state),
          phoneNumber = spread_field cached ''phoneNumber'' (phoneNumber initial_state),
          searchResults = spread_field cached ''searchResults'' (searchResults initial_state)\<rparr>
     | _ \<Rightarrow> initial_state)"

definition snapshot_of :: "session_state \<Rightarrow> jsval" where
  "snapshot_of st = jsonify (JObj [(''chatId'', chatId st), (''authToken'', authToken st),
       (''phoneNumber'', phoneNumber st), (''searchResults'', searchResults st)])"

definition saveState :: "world \<Rightarrow> world" where
  "saveState w = (if writable w then w\<lparr>cache := Snapshot (snapshot_of (state w))\<rparr> else w)"

definition getChatId :: "world \<Rightarrow> jsval" where
  "getChatId w = chatId (state w)"

definition setChatId :: "jsval \<Rightarrow> world \<Rightarrow> world" where
  "setChatId c w = saveState (w\<lparr>state := (state w)\<lparr>chatId := c\<rparr>\<rparr>)"

definition getAuthToken :: "world \<Rightarrow> jsval" where
  "getAuthToken w = authToken (state w)"

definition setAuthToken :: "jsval \<Rightarrow> jsval \<Rightarrow> world \<Rightarrow> world" where
  "setAuthToken token phone w =
     saveState (w\<lparr>state := (state w)\<lparr>authToken := token, phoneNumber := phone\<rparr>\<rparr>)"

definition clearAuth :: "world \<Rightarrow> world" where
  "clearAuth w = saveState (w\<lparr>state := (state w)\<lparr>authToken := JNull, phoneNumber := JNull\<rparr>\<rparr>)"

definition getPhoneNumber :: "world \<Rightarrow> jsval" where
  "getPhoneNumber w = phoneNumber (state w)"

definition getSearchResults :: "world \<Rightarrow> jsval" where
  "getSearchResults w = searchResults (state w)"

definition setSearchResults :: "jsval \<Rightarrow> world \<Rightarrow> world" where
  "setSearchResults results w = saveState (w\<lparr>state := (state w)\<lparr>searchResults := results\<rparr>\<rparr>)"

definition isAuthenticated :: "world \<Rightarrow> bool" where
  "isAuthenticated w = truthy (authToken (state w))"

section \<open>Backend Gateway\<close>

text \<open>
  The remote service is opaque.  It is given by what it answers to the latest request,
  knowing every request sent so far: \<open>fetch\<close> or the reading of the body rejects with
  an error of some message, the response is not \<open>ok\<close> (status and body text), or it
  is \<open>ok\<close> with a JSON body.  Tool calls are handled one at a time, each to its end.
\<close>

datatype response = FetchThrows string | HttpError nat string | HttpOk jsval

record flipdish_config =
  appId :: jsval
  storeId :: jsval
  bearerToken :: jsval

text \<open>
  What a run does not change: the client configuration, the backend, the text zod
  gives the message of a \<open>ZodError\<close>, and the reading of numbers from strings.
\<close>

record env =
  config :: flipdish_config
  backend :: "request list \<Rightarrow> response"
  zod_message :: "zod_issue list \<Rightarrow> string"
  str_gt_zero :: "string \<Rightarrow> bool"

text \<open>
  An asynchronous function that may throw: it runs on a world and gives the error or
  the value together with the world it leaves behind.
\<close>

type_synonym 'a action = "world \<Rightarrow> (error + 'a) \<times> world"

definition returns :: "'a \<Rightarrow> 'a action" where
  "returns a = (\<lambda>w. (Inr a, w))"

definition throws :: "error \<Rightarrow> 'a action" where
  "throws e = (\<lambda>w. (Inl e, w))"

definition lift :: "error + 'a \<Rightarrow> 'a action" where
  "lift r = (\<lambda>w. (r, w))"

definition and_then :: "'a action \<Rightarrow> ('a \<Rightarrow> 'b action) \<Rightarrow> 'b action" where
  "and_then m f = (\<lambda>w. case m w of (Inl e, w') \<Rightarrow> (Inl e, w') | (Inr a, w') \<Rightarrow> f a w')"

text \<open>The request \<open>callApi\<close> sends: the headers that matter and the JSON body.\<close>

definition api_request :: "env \<Rightarrow> string \<Rightarrow> jsval list \<Rightarrow> jsval \<Rightarrow> request" where
  "api_request ev act as auth =
     (let authTok = js_or auth (bearerToken (config ev))
      in \<lparr>action = act, args = map json_elem as,
          authorization = (if truthy authTok then Some (''Bearer '' @ toString authTok)
                           else None)\<rparr>)"

definition callApi :: "env \<Rightarrow> string \<Rightarrow> jsval list \<Rightarrow> jsval \<Rightarrow> jsval action" where
  "callApi ev act as auth = (\<lambda>w.
     let w' = w\<lparr>sent := sent w @ [api_request ev act as auth]\<rparr>
     in case backend ev (sent w') of
          FetchThrows m \<Rightarrow> (Inl (Error m), w')
        | HttpError status body \<Rightarrow>
            (Inl (Error (''API Error ('' @ show_nat status @ ''): '' @ body)), w')
        | HttpOk v \<Rightarrow> (Inr v, w'))"

definition createSession :: "env \<Rightarrow> jsval \<Rightarrow> jsval action" where
  "createSession ev token =
     callApi ev ''createSession''
       [appId (config ev), storeId (config ev), js_or token JNull, bearerToken (config ev)]
       JUndefined"

definition searchMenu :: "env \<Rightarrow> jsval \<Rightarrow> jsval \<Rightarrow> jsval \<Rightarrow> jsval action" where
  "searchMenu ev cid query token =
     and_then (callApi ev ''searchMenu'' [cid, query] token) (\<lambda>result.
       if isArray result then returns result
       else and_then (lift (getProp result ''items'')) (\<lambda>items.
              returns (js_or items (JArr []))))"

definition getBasket :: "env \<Rightarrow> jsval \<Rightarrow> jsval \<Rightarrow> jsval action" where
  "getBasket ev cid token = callApi ev ''getBasket'' [cid] token"

definition updateBasket :: "env \<Rightarrow> jsval \<Rightarrow> jsval \<Rightarrow> jsval \<Rightarrow> jsval action" where
  "updateBasket ev cid updates token = callApi ev ''updateBasket'' [cid, updates] token"

definition clearBasket :: "env \<Rightarrow> jsval \<Rightarrow> jsval \<Rightarrow> jsval action" where
  "clearBasket ev cid token = callApi ev ''clearBasket'' [cid, js_or token JNull] JUndefined"

definition submitOrder :: "env \<Rightarrow> jsval \<Rightarrow> jsval \<Rightarrow> jsval \<Rightarrow> jsval action" where
  "submitOrder ev cid token paymentAccountId =
     callApi ev ''submitOrder''
       [cid, token, js_or paymentAccountId JNull, appId (config ev), bearerToken (config ev)]
       JUndefined"

definition sendOTP :: "env \<Rightarrow> jsval \<Rightarrow> jsval action" where
  "sendOTP ev phone = callApi ev ''sendOTP'' [phone] JUndefined"

definition verifyOTP :: "env \<Rightarrow> jsval \<Rightarrow> jsval \<Rightarrow> jsval \<Rightarrow> jsval action" where
  "verifyOTP ev phone code cid =
     callApi ev ''verifyOTP'' [phone, code, js_or cid JNull, appId (config ev)] JUndefined"

section \<open>Tool Executor\<close>

definition WIDGET_URI :: string where
  "WIDGET_URI = ''ui://widgets/menu-carousel''"

definition LOGIN_WIDGET_URI :: string where
  "LOGIN_WIDGET_URI = ''ui://widgets/login''"

definition BASKET_WIDGET_URI :: string where
  "BASKET_WIDGET_URI = ''ui://widgets/basket''"

text \<open>\<open>[{ type: "text", text: t }]\<close>.\<close>

definition text_content :: "jsval \<Rightarrow> jsval" where
  "text_content t = JArr [JObj [(''type'', JStr ''text''), (''text'', t)]]"

definition ensureSession :: "env \<Rightarrow> jsval action" where
  "ensureSession ev = (\<lambda>w.
     let cid = getChatId w
     in if \<not> truthy cid
        then and_then (createSession ev JUndefined) (\<lambda>result.
               and_then (lift (getProp result ''chatId'')) (\<lambda>cid'.
                 (\<lambda>w'. (Inr cid', setChatId cid' w')))) w
        else (Inr cid, w))"

definition search_menu_case :: "env \<Rightarrow> jsval \<Rightarrow> jsval \<Rightarrow> jsval \<Rightarrow> jsval action" where
  "search_menu_case ev cid token a =
     and_then (lift (z_object_parse searchMenuSchema a)) (\<lambda>p.
     and_then (searchMenu ev cid (field p ''query'') (js_or token JUndefined)) (\<lambda>items.
     and_then (lift (getProp items ''length'')) (\<lambda>len.
       (\<lambda>w. (Inr (JObj
           [(''content'', text_content (JStr (''Found '' @ toString len @ '' menu items''))),
            (''structuredContent'', JObj [(''items'', items)]),
            (''_meta'', JObj
               [(''openai/outputTemplate'', JStr WIDGET_URI),
                (''openai/toolInvocation/invoking'', JStr ''Searching menu...''),
                (''openai/toolInvocation/invoked'',
                   JStr (''Found '' @ toString len @ '' items''))])]),
          setSearchResults items w)))))"

text \<open>The check of \<open>add_to_basket\<close> against the last search.\<close>

definition validate_against_search :: "env \<Rightarrow> jsval \<Rightarrow> jsval \<Rightarrow> error + unit" where
  "validate_against_search ev results menuItemId =
     (case getProp results ''length'' of
        Inl e \<Rightarrow> Inl e
      | Inr len \<Rightarrow>
          if gt_zero (str_gt_zero ev) len
          then (case results of
                  JArr items \<Rightarrow>
                    (case map_prop items ''menuItemId'' of
                       Inl e \<Rightarrow> Inl e
                     | Inr validIds \<Rightarrow>
                         if menuItemId \<notin> set validIds
                         then Inl (Error (''Invalid menuItemId. Valid IDs: ''
                                          @ join validIds '', ''))
                         else Inr ())
                | _ \<Rightarrow> Inl (not_a_function ''searchResults.map''))
          else Inr ())"

text \<open>\<open>basket.basketMenuItems?.find((item) => item.menuItemId === menuItemId)\<close>.\<close>

definition find_added :: "jsval \<Rightarrow> jsval \<Rightarrow> error + jsval" where
  "find_added basket menuItemId =
     (case getProp basket ''basketMenuItems'' of
        Inl e \<Rightarrow> Inl e
      | Inr items \<Rightarrow>
          (case items of
             JUndefined \<Rightarrow> Inr JUndefined
           | JNull \<Rightarrow> Inr JUndefined
           | JArr xs \<Rightarrow> find_by_id xs menuItemId
           | _ \<Rightarrow> Inl (not_a_function ''basket.basketMenuItems?.find'')))"

definition add_to_basket_case :: "env \<Rightarrow> jsval \<Rightarrow> jsval \<Rightarrow> jsval \<Rightarrow> jsval action" where
  "add_to_basket_case ev cid token a =
     and_then (lift (z_object_parse addToBasketSchema a)) (\<lambda>p.
     let menuItemId = field p ''menuItemId'';
         quantity = dflt (field p ''quantity'') (JNum 1);
         menuItemOptionSetItems = field p ''menuItemOptionSetItems''
     in
     and_then (\<lambda>w. (validate_against_search ev (getSearchResults w) menuItemId, w)) (\<lambda>_.
     and_then (updateBasket ev cid
                 (JObj [(''addMenuItems'', JArr [JObj
                    [(''menuItemId'', menuItemId),
                     (''quantity'', quantity),
                     (''menuItemOptionSetItems'', menuItemOptionSetItems)]])])
                 (js_or token JUndefined)) (\<lambda>_.
     and_then (getBasket ev cid (js_or token JUndefined)) (\<lambda>basket.
     and_then (lift (find_added basket menuItemId)) (\<lambda>addedItem.
     and_then (lift (if truthy addedItem then getProp addedItem ''name''
                     else Inr (JStr ''item''))) (\<lambda>itemName.
       returns (JObj
         [(''content'', text_content (JStr (''Added '' @ toString quantity @ ''x ''
                                            @ toString itemName @ '' to basket''))),
          (''structuredContent'', JObj
             [(''basket'', basket),
              (''action'', JStr ''add''),
              (''menuItemId'', menuItemId),
              (''quantity'', quantity),
              (''itemName'', itemName)])])))))))"

definition view_basket_case :: "env \<Rightarrow> jsval \<Rightarrow> jsval \<Rightarrow> jsval \<Rightarrow> jsval action" where
  "view_basket_case ev cid token a =
     and_then (getBasket ev cid (js_or token JUndefined)) (\<lambda>basket.
     and_then (lift (getProp basket ''basketMenuItems'')) (\<lambda>bmi.
     and_then (lift (getProp basket ''totalPrice'')) (\<lambda>tp.
     let items = js_or bmi (JArr []);
         total = js_or tp (JNum 0)
     in
     and_then (lift (getProp items ''length'')) (\<lambda>len.
     and_then (lift (toFixed2 total)) (\<lambda>fixed.
       returns (JObj
         [(''content'', text_content (JStr (''Basket contains '' @ toString len @ '' items (''
               @ [CHR 0xE2, CHR 0x82, CHR 0xAC] @ fixed @ '')''))),
          (''structuredContent'', JObj [(''basket'', basket)]),
          (''_meta'', JObj
             [(''openai/outputTemplate'', JStr BASKET_WIDGET_URI),
              (''openai/toolInvocation/invoking'', JStr ''Loading basket...''),
              (''openai/toolInvocation/invoked'',
                 JStr (toString len @ '' items in basket''))])]))))))"

definition remove_from_basket_case :: "env \<Rightarrow> jsval \<Rightarrow> jsval \<Rightarrow> jsval \<Rightarrow> jsval action" where
  "remove_from_basket_case ev cid token a =
     and_then (lift (z_object_parse removeFromBasketSchema a)) (\<lambda>p.
     let menuItemId = field p ''menuItemId'';
         quantity = dflt (field p ''quantity'') (JNum 1)
     in
     and_then (updateBasket ev cid
                 (JObj [(''removeMenuItems'', JArr [JObj
                    [(''menuItemId'', menuItemId), (''quantity'', quantity)]])])
                 (js_or token JUndefined)) (\<lambda>_.
     and_then (getBasket ev cid (js_or token JUndefined)) (\<lambda>basket.
       returns (JObj
         [(''content'', text_content (JStr (''Removed '' @ toString quantity
                                            @ ''x item from basket''))),
          (''structuredContent'', JObj [(''basket'', basket), (''action'', JStr ''remove'')]),
          (''_meta'', JObj [(''openai/outputTemplate'', JStr BASKET_WIDGET_URI)])]))))"

definition clear_basket_case :: "env \<Rightarrow> jsval \<Rightarrow> jsval \<Rightarrow> jsval \<Rightarrow> jsval action" where
  "clear_basket_case ev cid token a =
     and_then (clearBasket ev cid (js_or token JUndefined)) (\<lambda>_.
       returns (JObj
         [(''content'', text_content (JStr ''Basket cleared'')),
          (''structuredContent'', JObj
             [(''basket'', JObj [(''basketMenuItems'', JArr []), (''totalPrice'', JNum 0)])])]))"

definition authResponse :: jsval where
  "authResponse = JObj
     [(''content'', text_content (JStr ''Please authenticate to continue.'')),
      (''_meta'', JObj
         [(''openai/outputTemplate'', JStr LOGIN_WIDGET_URI),
          (''openai/toolInvocation/invoking'', JStr ''Authentication required...''),
          (''openai/toolInvocation/invoked'', JStr ''Please login to continue''),
          (''openai/widgetAccessible'', JBool True)]),
      (''structuredContent'', JObj
         [(''error'', JStr ''authentication_required''),
          (''message'', JStr ''Authentication widget opened. Please log in using the form.'')])]"

definition submit_order_case :: "env \<Rightarrow> jsval \<Rightarrow> jsval \<Rightarrow> jsval \<Rightarrow> jsval action" where
  "submit_order_case ev cid token a =
     (if \<not> truthy token then returns authResponse
      else
        and_then (lift (z_object_parse submitOrderSchema a)) (\<lambda>p.
        and_then (submitOrder ev cid token (field p ''paymentAccountId'')) (\<lambda>result.
        and_then (lift (getProp result ''success'')) (\<lambda>success.
        and_then (lift (getProp result ''error'')) (\<lambda>err.
        and_then (lift (getProp result ''leadTimePrompt'')) (\<lambda>leadTimePrompt.
        and_then (lift (getProp result ''orderId'')) (\<lambda>orderId.
          if \<not> truthy success
          then throws (Error (toString (js_or err (JStr ''Order submission failed''))))
          else returns (JObj
            [(''content'', text_content
                (js_or leadTimePrompt
                   (JStr (''Order placed! Order ID: '' @ toString orderId)))),
             (''structuredContent'', JObj
                [(''success'', JBool True),
                 (''orderId'', orderId),
                 (''leadTimePrompt'', leadTimePrompt)])]))))))))"

definition send_otp_case :: "env \<Rightarrow> jsval \<Rightarrow> jsval \<Rightarrow> jsval \<Rightarrow> jsval action" where
  "send_otp_case ev cid token a =
     and_then (lift (z_object_parse sendOtpSchema a)) (\<lambda>p.
     let phone = field p ''phoneNumber'' in
     and_then (sendOTP ev phone) (\<lambda>result.
     and_then (lift (getProp result ''success'')) (\<lambda>success.
     and_then (lift (getProp result ''error'')) (\<lambda>err.
       if \<not> truthy success
       then throws (Error (toString (js_or err (JStr ''Failed to send OTP''))))
       else returns (JObj
         [(''content'', text_content (JStr (''OTP sent to '' @ toString phone))),
          (''_meta'', JObj [(''openai/outputTemplate'', JStr LOGIN_WIDGET_URI)])])))))"

definition verify_otp_case :: "env \<Rightarrow> jsval \<Rightarrow> jsval \<Rightarrow> jsval \<Rightarrow> jsval action" where
  "verify_otp_case ev cid token a =
     and_then (lift (z_object_parse verifyOtpSchema a)) (\<lambda>p.
     let phone = field p ''phoneNumber'';
         code = field p ''code''
     in
     and_then (verifyOTP ev phone code cid) (\<lambda>result.
     and_then (lift (getProp result ''success'')) (\<lambda>success.
     and_then (lift (getProp result ''token'')) (\<lambda>tok.
     and_then (lift (getProp result ''error'')) (\<lambda>err.
       if \<not> truthy success \<or> \<not> truthy tok
       then throws (Error (toString (js_or err (JStr ''OTP verification failed''))))
       else (\<lambda>w. (Inr (JObj
         [(''content'', text_content (JStr ''Authentication successful!'')),
          (''structuredContent'', JObj
             [(''authenticated'', JBool True), (''phoneNumber'', phone)]),
          (''_meta'', JObj [(''openai/outputTemplate'', JStr LOGIN_WIDGET_URI)])]),
          setAuthToken tok phone w)))))))"

text \<open>The \<open>switch\<close> over the tool name, entered once the session id is known.\<close>

definition dispatch :: "env \<Rightarrow> string \<Rightarrow> jsval \<Rightarrow> jsval \<Rightarrow> jsval \<Rightarrow> jsval action" where
  "dispatch ev name cid token a =
     (if name = ''search_menu'' then search_menu_case ev cid token a
      else if name = ''add_to_basket'' then add_to_basket_case ev cid token a
      else if name = ''view_basket'' then view_basket_case ev cid token a
      else if name = ''remove_from_basket'' then remove_from_basket_case ev cid token a
      else if name = ''clear_basket'' then clear_basket_case ev cid token a
      else if name = ''submit_order'' then submit_order_case ev cid token a
      else if name = ''send_otp'' then send_otp_case ev cid token a
      else if name = ''verify_otp'' then verify_otp_case ev cid token a
      else throws (Error (''Unknown tool: '' @ name)))"

definition executeToolInternal :: "env \<Rightarrow> string \<Rightarrow> jsval \<Rightarrow> jsval action" where
  "executeToolInternal ev name a =
     and_then (ensureSession ev) (\<lambda>cid.
       (\<lambda>w. dispatch ev name cid (getAuthToken w) a w))"

text \<open>\<open>error.message\<close>.\<close>

definition message :: "env \<Rightarrow> error \<Rightarrow> string" where
  "message ev e = (case e of Error m \<Rightarrow> m | ZodError issues \<Rightarrow> zod_message ev issues)"

definition expiry_marker :: string where
  "expiry_marker = ''Call context not found''"

definition executeTool :: "env \<Rightarrow> string \<Rightarrow> jsval \<Rightarrow> jsval action" where
  "executeTool ev name a = (\<lambda>w.
     case executeToolInternal ev name a w of
       (Inr r, w') \<Rightarrow> (Inr r, w')
     | (Inl e, w') \<Rightarrow>
         if message ev e \<noteq> [] \<and> str_includes (message ev e) expiry_marker
         then executeToolInternal ev name a (setChatId (JStr []) w')
         else (Inl e, w'))"

text \<open>The handler of \<open>CallToolRequestSchema\<close>: it returns a result, and a world.\<close>

definition callToolHandler :: "env \<Rightarrow> string \<Rightarrow> jsval \<Rightarrow> world \<Rightarrow> jsval \<times> world" where
  "callToolHandler ev name arguments w =
     (case executeTool ev name (nullish_or arguments (JObj [])) w of
        (Inr result, w') \<Rightarrow> (result, w')
      | (Inl e, w') \<Rightarrow>
          (JObj [(''content'', text_content (JStr (''Error: '' @ message ev e))),
                 (''isError'', JBool True)], w'))"

section \<open>Notions used to state the properties\<close>

text \<open>\<open>v.k1.k2...\<close>\<close>

fun path_get :: "jsval \<Rightarrow> string list \<Rightarrow> error + jsval" where
  "path_get v [] = Inr v"
| "path_get v (k # ks) = (case getProp v k of Inl e \<Rightarrow> Inl e | Inr v' \<Rightarrow> path_get v' ks)"

text \<open>The requests sent to the backend between two worlds of a run.\<close>

definition new_requests :: "world \<Rightarrow> world \<Rightarrow> request list" where
  "new_requests w w' = drop (length (sent w)) (sent w')"

text \<open>
  From \<open>w\<close> to \<open>w'\<close> the log of requests was only extended, and only by requests
  whose action is one of \<open>acts\<close>.
\<close>

definition sends_only :: "string list \<Rightarrow> world \<Rightarrow> world \<Rightarrow> bool" where
  "sends_only acts w w' =
     (take (length (sent w)) (sent w') = sent w
      \<and> list_all (\<lambda>q. action q \<in> set acts) (new_requests w w'))"

text \<open>Everything of the session state but the session id is kept.\<close>

definition same_but_chatId :: "world \<Rightarrow> world \<Rightarrow> bool" where
  "same_but_chatId w w' =
     (authToken (state w') = authToken (state w)
      \<and> phoneNumber (state w') = phoneNumber (state w)
      \<and> searchResults (state w') = searchResults (state w)
      \<and> writable w' = writable w)"

definition auth_kept :: "world \<Rightarrow> world \<Rightarrow> bool" where
  "auth_kept w w' =
     (authToken (state w') = authToken (state w)
      \<and> phoneNumber (state w') = phoneNumber (state w))"

text \<open>An action leaves every world in relation \<open>R\<close> to the world it started from.\<close>

definition keeps :: "(world \<Rightarrow> world \<Rightarrow> bool) \<Rightarrow> 'a action \<Rightarrow> bool" where
  "keeps R m = (\<forall>w. R w (snd (m w)))"

text \<open>
  A field of the session state is set when it holds a value, unset when it is \<open>null\<close>
  (or \<open>undefined\<close>).  Authentication is atomic when token and phone number are set
  together or unset together.
\<close>

definition is_set :: "jsval \<Rightarrow> bool" where
  "is_set v = (v \<noteq> JNull \<and> v \<noteq> JUndefined)"

definition auth_atomic :: "session_state \<Rightarrow> bool" where
  "auth_atomic st = (is_set (authToken st) = is_set (phoneNumber st))"

text \<open>
  The operations that change the Session Store: a tool call through the executor, and
  the setters the store exports, called with arguments of their declared types.
\<close>

datatype store_op =
    ToolCall string jsval
  | SetChatId string
  | SetAuthToken string string
  | ClearAuth
  | SetSearchResults "jsval list"

fun apply_op :: "env \<Rightarrow> store_op \<Rightarrow> world \<Rightarrow> world" where
  "apply_op ev (ToolCall name a) w = snd (callToolHandler ev name a w)"
| "apply_op ev (SetChatId c) w = setChatId (JStr c) w"
| "apply_op ev (SetAuthToken t p) w = setAuthToken (JStr t) (JStr p) w"
| "apply_op ev ClearAuth w = clearAuth w"
| "apply_op ev (SetSearchResults xs) w = setSearchResults (JArr xs) w"

fun run_ops :: "env \<Rightarrow> store_op list \<Rightarrow> world \<Rightarrow> world" where
  "run_ops ev [] w = w"
| "run_ops ev (x # xs) w = run_ops ev xs (apply_op ev x w)"

text \<open>The request by which \<open>ensureSession\<close> asks for a guest session.\<close>

definition guest_session_request :: "env \<Rightarrow> request" where
  "guest_session_request ev =
     api_request ev ''createSession''
       [appId (config ev), storeId (config ev), JNull, bearerToken (config ev)] JUndefined"

text \<open>The names the \<open>switch\<close> of the executor knows.\<close>

definition tool_names :: "string list" where
  "tool_names = [''search_menu'', ''add_to_basket'', ''view_basket'', ''remove_from_basket'',
                 ''clear_basket'', ''submit_order'', ''send_otp'', ''verify_otp'']"

text \<open>The log of requests of \<open>w'\<close> starts with that of \<open>w\<close>.\<close>

definition log_extends :: "world \<Rightarrow> world \<Rightarrow> bool" where
  "log_extends w w' = (take (length (sent w)) (sent w') = sent w)"

text \<open>
  Two worlds agree when they differ at most in the last search results and in the
  cache file.  An action is blind to the last search when, run on worlds that agree,
  it gives the same result and leaves worlds that agree.
\<close>

definition agree :: "world \<Rightarrow> world \<Rightarrow> bool" where
  "agree w v = (chatId (state w) = chatId (state v) \<and> authToken (state w) = authToken (state v)
     \<and> phoneNumber (state w) = phoneNumber (state v) \<and> sent w = sent v)"

definition cache_blind :: "'a action \<Rightarrow> bool" where
  "cache_blind m = (\<forall>w v. agree w v \<longrightarrow> fst (m w) = fst (m v) \<and> agree (snd (m w)) (snd (m v)))"

text \<open>
  The requests by which \<open>add_to_basket\<close> and \<open>remove_from_basket\<close> ask the backend
  to change the basket, for parsed arguments \<open>p\<close>.
\<close>

definition add_request :: "env \<Rightarrow> jsval \<Rightarrow> jsval \<Rightarrow> (string \<times> jsval) list \<Rightarrow> request" where
  "add_request ev cid tok p =
     api_request ev ''updateBasket''
       [cid, JObj [(''addMenuItems'', JArr [JObj
          [(''menuItemId'', field p ''menuItemId''),
           (''quantity'', dflt (field p ''quantity'') (JNum 1)),
           (''menuItemOptionSetItems'', field p ''menuItemOptionSetItems'')]])]]
       (js_or tok JUndefined)"

definition remove_request :: "env \<Rightarrow> jsval \<Rightarrow> jsval \<Rightarrow> (string \<times> jsval) list \<Rightarrow> request" where
  "remove_request ev cid tok p =
     api_request ev ''updateBasket''
       [cid, JObj [(''removeMenuItems'', JArr [JObj
          [(''menuItemId'', field p ''menuItemId''),
           (''quantity'', dflt (field p ''quantity'') (JNum 1))]])]]
       (js_or tok JUndefined)"

text \<open>The result \<open>clear_basket\<close> returns.\<close>

definition cleared :: jsval where
  "cleared = JObj
     [(''content'', text_content (JStr ''Basket cleared'')),
      (''structuredContent'', JObj
         [(''basket'', JObj [(''basketMenuItems'', JArr []), (''totalPrice'', JNum 0)])])]"

text \<open>
  What a field of the session state holds after the state was written to the cache file
  and read back: \<open>JSON.stringify\<close> leaves a field that is \<open>undefined\<close> out of the
  snapshot, so that the spread keeps the default \<open>d\<close> of the field; every other value
  comes back as \<open>JSON.parse (JSON.stringify v)\<close>.
\<close>

definition restored :: "jsval \<Rightarrow> jsval \<Rightarrow> jsval" where
  "restored v d = (if v = JUndefined then d else jsonify v)"

section \<open>Scenarios\<close>

text \<open>Concrete backends and worlds on which the properties are exercised.\<close>

definition demo_config :: flipdish_config where
  "demo_config = \<lparr>appId = JStr ''app'', storeId = JNum 7, bearerToken = JUndefined\<rparr>"

definition env_of :: "(request list \<Rightarrow> response) \<Rightarrow> env" where
  "env_of b = \<lparr>config = demo_config, backend = b,
               zod_message = (\<lambda>issues. ''invalid arguments''),
               str_gt_zero = (\<lambda>s. False)\<rparr>"

definition fresh_world :: world where
  "fresh_world = \<lparr>state = initial_state, cache = Missing, writable = True, sent = []\<rparr>"

definition pizza_items :: "jsval list" where
  "pizza_items =
     [JObj [(''menuItemId'', JNum 1), (''name'', JStr ''Margherita''), (''price'', JNum 9)],
      JObj [(''menuItemId'', JNum 2), (''name'', JStr ''Pepperoni''), (''price'', JNum 11)],
      JObj [(''menuItemId'', JNum 3), (''name'', JStr ''Hawaii''), (''price'', JNum 12)]]"

text \<open>A backend that is unreachable: every request is answered 503.\<close>

definition backend_down :: "request list \<Rightarrow> response" where
  "backend_down h = HttpError 503 ''Service Unavailable''"

text \<open>
  A backend in working order.  It numbers its sessions, accepts the one-time code
  1234, and declines every payment.
\<close>

definition backend_up :: "request list \<Rightarrow> response" where
  "backend_up h =
     (let act = action (last h) in
      if act = ''createSession''
        then HttpOk (JObj [(''chatId'', JStr (''chat-'' @ show_nat (length h)))])
      else if act = ''searchMenu'' then HttpOk (JArr pizza_items)
      else if act = ''getBasket''
        then HttpOk (JObj [(''basketMenuItems'', JArr [hd pizza_items]), (''totalPrice'', JNum 9)])
      else if act = ''sendOTP'' then HttpOk (JObj [(''success'', JBool True)])
      else if act = ''verifyOTP''
        then (if args (last h) ! 1 = JStr ''1234''
              then HttpOk (JObj [(''success'', JBool True), (''token'', JStr ''secret'')])
              else HttpOk (JObj [(''success'', JBool False), (''error'', JStr ''Wrong code'')]))
      else if act = ''submitOrder''
        then HttpOk (JObj [(''success'', JBool False), (''error'', JStr ''Payment declined'')])
      else HttpOk (JObj []))"

text \<open>
  A backend that has forgotten the session \<open>stale\<close>: a request made with that session
  id is answered with the expiry marker, everything else as by \<open>backend_up\<close>.
\<close>

definition backend_forgot :: "request list \<Rightarrow> response" where
  "backend_forgot h =
     (if action (last h) \<noteq> ''createSession'' \<and> args (last h) ! 0 = JStr ''stale''
      then HttpError 400 ''Call context not found''
      else backend_up h)"

text \<open>A backend that creates sessions and then never finds them again.\<close>

definition backend_amnesic :: "request list \<Rightarrow> response" where
  "backend_amnesic h =
     (if action (last h) = ''createSession'' then backend_up h
      else HttpError 400 ''Call context not found'')"

text \<open>
  A backend that works for the first two requests, reports the session expired at the
  third, and is unreachable from then on.
\<close>

definition backend_outage :: "request list \<Rightarrow> response" where
  "backend_outage h =
     (if length h \<le> 2 then backend_up h
      else if length h = 3 then HttpError 400 ''Call context not found''
      else backend_down h)"

text \<open>A world with a session, and one that is authenticated as well.\<close>

definition session_world :: "string \<Rightarrow> world" where
  "session_world c = fresh_world\<lparr>state := initial_state\<lparr>chatId := JStr c\<rparr>\<rparr>"

definition authed_world :: world where
  "authed_world =
     fresh_world\<lparr>state := initial_state\<lparr>chatId := JStr ''chat-1'',
        authToken := JStr ''secret'', phoneNumber := JStr ''+353861234567''\<rparr>\<rparr>"

text \<open>A backend that gives the same answer to every request.\<close>

definition backend_const :: "response \<Rightarrow> request list \<Rightarrow> response" where
  "backend_const r h = r"

text \<open>The answer of \<open>backend_up\<close> to an order.\<close>

definition declined :: jsval where
  "declined = JObj [(''success'', JBool False), (''error'', JStr ''Payment declined'')]"

text \<open>A world with a session in which the menu has been searched.\<close>

definition searched_world :: world where
  "searched_world =
     fresh_world\<lparr>state := initial_state\<lparr>chatId := JStr ''chat-1'',
        searchResults := JArr pizza_items\<rparr>\<rparr>"

text \<open>
  The world after one call of \<open>clear_basket\<close> on a fresh world, against a backend that
  answers every request with the empty object: \<open>ensureSession\<close> stores the \<open>chatId\<close>
  of the answer to \<open>createSession\<close> as it is.
\<close>

definition bare_world :: world where
  "bare_world = run_ops (env_of (backend_const (HttpOk (JObj []))))
                  [ToolCall ''clear_basket'' (JObj [])] fresh_world"

section \<open>Basic facts\<close>

subsection \<open>Sequencing\<close>

lemma and_then_returns [simp]: "and_then (returns a) f = f a"
  by (simp add: and_then_def returns_def)

lemma and_then_throws [simp]: "and_then (throws e) f = throws e"
  by (simp add: and_then_def throws_def)

lemma and_then_lift_Inr [simp]: "and_then (lift (Inr a)) f = f a"
  by (simp add: and_then_def lift_def)

lemma and_then_lift_Inl [simp]: "and_then (lift (Inl e)) f = throws e"
  by (simp add: and_then_def lift_def throws_def)

lemma and_then_Inr: "m w = (Inr a, w') \<Longrightarrow> and_then m f w = f a w'"
  by (simp add: and_then_def)

lemma and_then_Inl: "m w = (Inl e, w') \<Longrightarrow> and_then m f w = (Inl e, w')"
  by (simp add: and_then_def)

lemma and_thenE:
  assumes "and_then m f w = (r, w'')"
  obtains (fail) e where "m w = (Inl e, w'')" and "r = Inl e"
        | (ok) a w' where "m w = (Inr a, w')" and "f a w' = (r, w'')"
  using assms by (auto simp: and_then_def split: prod.splits sum.splits)

subsection \<open>The store\<close>

lemma saveState_fields [simp]:
  "state (saveState w) = state w"
  "sent (saveState w) = sent w"
  "writable (saveState w) = writable w"
  by (simp_all add: saveState_def)

lemma cache_saveState:
  "cache (saveState w) = (if writable w then Snapshot (snapshot_of (state w)) else cache w)"
  by (simp add: saveState_def)

lemma setChatId_fields [simp]:
  "state (setChatId c w) = (state w)\<lparr>chatId := c\<rparr>"
  "sent (setChatId c w) = sent w"
  "writable (setChatId c w) = writable w"
  by (simp_all add: setChatId_def)

lemma setAuthToken_fields [simp]:
  "state (setAuthToken t p w) = (state w)\<lparr>authToken := t, phoneNumber := p\<rparr>"
  "sent (setAuthToken t p w) = sent w"
  "writable (setAuthToken t p w) = writable w"
  by (simp_all add: setAuthToken_def)

lemma clearAuth_fields [simp]:
  "state (clearAuth w) = (state w)\<lparr>authToken := JNull, phoneNumber := JNull\<rparr>"
  "sent (clearAuth w) = sent w"
  "writable (clearAuth w) = writable w"
  by (simp_all add: clearAuth_def)

lemma setSearchResults_fields [simp]:
  "state (setSearchResults xs w) = (state w)\<lparr>searchResults := xs\<rparr>"
  "sent (setSearchResults xs w) = sent w"
  "writable (setSearchResults xs w) = writable w"
  by (simp_all add: setSearchResults_def)

subsection \<open>Relations between the worlds of a run\<close>

lemma sends_only_iff:
  "sends_only acts w w' \<longleftrightarrow>
     (\<exists>new. sent w' = sent w @ new \<and> (\<forall>q \<in> set new. action q \<in> set acts))"
proof
  assume h: "sends_only acts w w'"
  have "sent w' = take (length (sent w)) (sent w') @ drop (length (sent w)) (sent w')"
    by simp
  with h have "sent w' = sent w @ new_requests w w'"
    by (simp add: sends_only_def new_requests_def)
  moreover from h have "\<forall>q \<in> set (new_requests w w'). action q \<in> set acts"
    by (simp add: sends_only_def list_all_iff)
  ultimately show "\<exists>new. sent w' = sent w @ new \<and> (\<forall>q \<in> set new. action q \<in> set acts)"
    by blast
next
  assume "\<exists>new. sent w' = sent w @ new \<and> (\<forall>q \<in> set new. action q \<in> set acts)"
  then show "sends_only acts w w'"
    by (auto simp: sends_only_def new_requests_def list_all_iff)
qed

lemma sends_only_refl: "reflp (sends_only acts)"
  by (simp add: reflp_def sends_only_iff)

lemma sends_only_trans: "transp (sends_only acts)"
  unfolding transp_def sends_only_iff by auto

lemma sends_only_self [simp]: "sends_only acts w w"
  by (simp add: sends_only_iff)

lemma sends_only_same_log: "sent w' = sent w \<Longrightarrow> sends_only acts w w'"
  by (simp add: sends_only_iff)

lemma sends_only_new:
  "sends_only acts w w' \<Longrightarrow> q \<in> set (new_requests w w') \<Longrightarrow> action q \<in> set acts"
  by (simp add: sends_only_def list_all_iff)

lemma sends_only_one:
  "action q \<in> set acts \<Longrightarrow> sends_only acts w (w\<lparr>sent := sent w @ [q]\<rparr>)"
  by (simp add: sends_only_iff)

lemma auth_kept_refl: "reflp auth_kept"
  by (simp add: reflp_def auth_kept_def)

lemma auth_kept_trans: "transp auth_kept"
  by (simp add: transp_def auth_kept_def)

lemma same_but_chatId_auth_kept: "same_but_chatId w w' \<Longrightarrow> auth_kept w w'"
  by (simp add: same_but_chatId_def auth_kept_def)

subsection \<open>Actions that keep a relation\<close>

lemma keepsD: "keeps R m \<Longrightarrow> m w = (r, w') \<Longrightarrow> R w w'"
  by (auto simp: keeps_def dest: spec [of _ w])

lemma keeps_weaken: "keeps R m \<Longrightarrow> (\<And>w w'. R w w' \<Longrightarrow> S w w') \<Longrightarrow> keeps S m"
  by (simp add: keeps_def)

lemma keeps_returns: "reflp R \<Longrightarrow> keeps R (returns a)"
  by (simp add: keeps_def returns_def reflpD)

lemma keeps_throws: "reflp R \<Longrightarrow> keeps R (throws e)"
  by (simp add: keeps_def throws_def reflpD)

lemma keeps_lift: "reflp R \<Longrightarrow> keeps R (lift r)"
  by (simp add: keeps_def lift_def reflpD)

lemma keeps_pure: "reflp R \<Longrightarrow> keeps R (\<lambda>w. (f w, w))"
  by (simp add: keeps_def reflpD)

lemma keeps_and_then:
  assumes "transp R" and "keeps R m" and "\<And>a. keeps R (f a)"
  shows "keeps R (and_then m f)"
  unfolding keeps_def
proof
  fix w
  show "R w (snd (and_then m f w))"
  proof (cases "m w")
    case (Pair r w1)
    have 1: "R w w1" using assms(2) Pair by (rule keepsD)
    show ?thesis
    proof (cases r)
      case (Inl e)
      with Pair 1 show ?thesis by (simp add: and_then_def)
    next
      case (Inr a)
      have "R w1 (snd (f a w1))" using assms(3) by (simp add: keeps_def)
      with 1 have "R w (snd (f a w1))" using assms(1) by (blast dest: transpD)
      with Pair Inr show ?thesis by (simp add: and_then_def)
    qed
  qed
qed

lemma keeps_if: "keeps R m \<Longrightarrow> keeps R n \<Longrightarrow> keeps R (if c then m else n)"
  by simp

lemma keeps_callApi:
  assumes "\<And>w. R w (w\<lparr>sent := sent w @ [api_request ev act as auth]\<rparr>)"
  shows "keeps R (callApi ev act as auth)"
  using assms by (simp add: keeps_def callApi_def Let_def split: response.splits)

lemmas keeps_intros =
  keeps_and_then keeps_returns keeps_throws keeps_lift keeps_pure keeps_if keeps_callApi

subsection \<open>The gateway\<close>

lemma action_api_request [simp]: "action (api_request ev act as auth) = act"
  by (simp add: api_request_def Let_def)

lemma callApi_world:
  "callApi ev act as auth w = (r, w') \<Longrightarrow> w' = w\<lparr>sent := sent w @ [api_request ev act as auth]\<rparr>"
  by (auto simp: callApi_def Let_def split: response.splits)

subsection \<open>ensureSession\<close>

lemma ensureSession_held:
  "truthy (chatId (state w)) \<Longrightarrow> ensureSession ev w = (Inr (chatId (state w)), w)"
  by (simp add: ensureSession_def getChatId_def)

lemma ensureSession_new:
  assumes "\<not> truthy (chatId (state w))"
  shows "ensureSession ev w =
     (let w1 = w\<lparr>sent := sent w @ [guest_session_request ev]\<rparr>
      in case backend ev (sent w1) of
           FetchThrows m \<Rightarrow> (Inl (Error m), w1)
         | HttpError status body \<Rightarrow>
             (Inl (Error (''API Error ('' @ show_nat status @ ''): '' @ body)), w1)
         | HttpOk v \<Rightarrow>
             (case getProp v ''chatId'' of
                Inl e \<Rightarrow> (Inl e, w1)
              | Inr c \<Rightarrow> (Inr c, setChatId c w1)))"
  using assms
  by (simp add: ensureSession_def getChatId_def createSession_def guest_session_request_def
      js_or_def callApi_def and_then_def lift_def Let_def split: response.splits sum.splits)

lemma ensureSession_same_but_chatId: "keeps same_but_chatId (ensureSession ev)"
  unfolding keeps_def
proof
  fix w
  show "same_but_chatId w (snd (ensureSession ev w))"
  proof (cases "truthy (chatId (state w))")
    case True
    then show ?thesis by (simp add: ensureSession_held same_but_chatId_def)
  next
    case False
    then show ?thesis
      by (simp add: ensureSession_new Let_def same_but_chatId_def split: response.splits sum.splits)
  qed
qed

lemma ensureSession_sends: "keeps (sends_only [''createSession'']) (ensureSession ev)"
  unfolding keeps_def
proof
  fix w
  show "sends_only [''createSession''] w (snd (ensureSession ev w))"
  proof (cases "truthy (chatId (state w))")
    case True
    then show ?thesis by (simp add: ensureSession_held)
  next
    case False
    then show ?thesis
      by (simp add: ensureSession_new Let_def sends_only_iff guest_session_request_def
          split: response.splits sum.splits)
  qed
qed

lemma ensureSession_sends_more:
  "''createSession'' \<in> set acts \<Longrightarrow> keeps (sends_only acts) (ensureSession ev)"
  by (rule keeps_weaken [OF ensureSession_sends]) (auto simp: sends_only_iff)

lemma executeToolInternal_alt:
  "executeToolInternal ev name a w =
     (case ensureSession ev w of
        (Inl e, w1) \<Rightarrow> (Inl e, w1)
      | (Inr cid, w1) \<Rightarrow> dispatch ev name cid (authToken (state w1)) a w1)"
  by (simp add: executeToolInternal_def and_then_def getAuthToken_def)

subsection \<open>executeTool\<close>

lemma executeTool_Inr:
  "executeToolInternal ev name a w = (Inr r, w') \<Longrightarrow> executeTool ev name a w = (Inr r, w')"
  by (simp add: executeTool_def)

lemma includes_nonempty: "str_includes s expiry_marker \<Longrightarrow> s \<noteq> []"
  by (cases s) (simp_all add: expiry_marker_def)

lemma executeTool_Inl:
  "executeToolInternal ev name a w = (Inl e, w1) \<Longrightarrow>
   executeTool ev name a w =
     (if str_includes (message ev e) expiry_marker
      then executeToolInternal ev name a (setChatId (JStr []) w1)
      else (Inl e, w1))"
  using includes_nonempty [of "message ev e"] by (auto simp: executeTool_def)

lemma executeTool_cases:
  assumes "executeTool ev name a w = (r, w')"
  obtains (first) "executeToolInternal ev name a w = (r, w')"
        | (retry) e w1 where "executeToolInternal ev name a w = (Inl e, w1)"
            and "str_includes (message ev e) expiry_marker"
            and "executeToolInternal ev name a (setChatId (JStr []) w1) = (r, w')"
proof (cases "executeToolInternal ev name a w")
  case (Pair x w1)
  show ?thesis
  proof (cases x)
    case (Inr v)
    with Pair assms first show ?thesis by (simp add: executeTool_Inr)
  next
    case (Inl e)
    with Pair assms first retry show ?thesis
      by (cases "str_includes (message ev e) expiry_marker") (simp_all add: executeTool_Inl)
  qed
qed

lemma keeps_executeTool:
  assumes "transp R" and "keeps R (executeToolInternal ev name a)"
    and "\<And>w c. R w (setChatId c w)"
  shows "keeps R (executeTool ev name a)"
  unfolding keeps_def
proof
  fix w
  obtain r w' where run: "executeTool ev name a w = (r, w')" by (cases "executeTool ev name a w")
  from run have "R w w'"
  proof (cases rule: executeTool_cases)
    case first
    with assms(2) show ?thesis by (rule keepsD)
  next
    case (retry e w1)
    have "R w w1" using assms(2) retry(1) by (rule keepsD)
    moreover have "R w1 (setChatId (JStr []) w1)" by (rule assms(3))
    moreover have "R (setChatId (JStr []) w1) w'" using assms(2) retry(3) by (rule keepsD)
    ultimately show ?thesis using assms(1) by (blast dest: transpD)
  qed
  with run show "R w (snd (executeTool ev name a w))" by simp
qed

lemma keeps_executeToolInternal:
  assumes "transp R" and "keeps R (ensureSession ev)"
    and "\<And>cid tok. keeps R (dispatch ev name cid tok a)"
  shows "keeps R (executeToolInternal ev name a)"
  unfolding executeToolInternal_def
  by (rule keeps_and_then [OF assms(1,2)]) (use assms(3) in \<open>simp add: keeps_def\<close>)

subsection \<open>clear_basket\<close>

lemma dispatch_clear [simp]: "dispatch ev ''clear_basket'' cid tok a = clear_basket_case ev cid tok a"
  by (simp add: dispatch_def)

lemma clear_basket_case_result:
  "clear_basket_case ev cid tok a w = (Inr r, w') \<Longrightarrow> r = cleared"
  by (auto simp: clear_basket_case_def cleared_def returns_def elim!: and_thenE)

lemma clear_internal_result:
  "executeToolInternal ev ''clear_basket'' a w = (Inr r, w') \<Longrightarrow> r = cleared"
  by (auto simp: executeToolInternal_alt split: prod.splits sum.splits
      dest: clear_basket_case_result)

lemma clear_basket_case_sends:
  "keeps (sends_only [''createSession'', ''clearBasket'']) (clear_basket_case ev cid tok a)"
  unfolding clear_basket_case_def clearBasket_def
  by (intro keeps_intros sends_only_refl sends_only_trans) (simp add: sends_only_one)

lemma clear_tool_sends:
  "keeps (sends_only [''createSession'', ''clearBasket'']) (executeTool ev ''clear_basket'' a)"
  by (intro keeps_executeTool keeps_executeToolInternal sends_only_trans
      ensureSession_sends_more)
    (simp_all add: clear_basket_case_sends sends_only_same_log)

subsection \<open>submit_order\<close>

lemma dispatch_submit [simp]:
  "dispatch ev ''submit_order'' cid tok a = submit_order_case ev cid tok a"
  by (simp add: dispatch_def)

lemma ensureSession_authToken:
  "ensureSession ev w = (r, w1) \<Longrightarrow> authToken (state w1) = authToken (state w)"
  using keepsD [OF ensureSession_same_but_chatId] by (fastforce simp: same_but_chatId_def)

lemma submit_gated:
  assumes "\<not> truthy (authToken (state w))" and "ensureSession ev w = (Inr cid, w1)"
  shows "executeToolInternal ev ''submit_order'' a w = (Inr authResponse, w1)"
  using assms ensureSession_authToken [OF assms(2)]
  by (simp add: executeToolInternal_alt submit_order_case_def returns_def)

lemma submit_gated_internal:
  assumes "\<not> truthy (authToken (state w))"
    and "executeToolInternal ev ''submit_order'' a w = (r, w')"
  shows "sends_only [''createSession''] w w' \<and> authToken (state w') = authToken (state w)"
proof (cases "ensureSession ev w")
  case (Pair x w1)
  have s: "sends_only [''createSession''] w w1"
    using ensureSession_sends Pair by (rule keepsD)
  have t: "authToken (state w1) = authToken (state w)"
    using Pair by (rule ensureSession_authToken)
  show ?thesis
  proof (cases x)
    case (Inl e)
    with Pair assms(2) s t show ?thesis by (simp add: executeToolInternal_alt)
  next
    case (Inr cid)
    with Pair assms s t show ?thesis by (simp add: submit_gated)
  qed
qed

lemma submit_gated_tool:
  assumes "\<not> truthy (authToken (state w))"
    and "executeTool ev ''submit_order'' a w = (r, w')"
  shows "sends_only [''createSession''] w w'"
  using assms(2)
proof (cases rule: executeTool_cases)
  case first
  with assms(1) show ?thesis by (simp add: submit_gated_internal)
next
  case (retry e w1)
  have 1: "sends_only [''createSession''] w w1 \<and> authToken (state w1) = authToken (state w)"
    using assms(1) retry(1) by (rule submit_gated_internal)
  let ?w2 = "setChatId (JStr []) w1"
  have 2: "sends_only [''createSession''] w1 ?w2" by (simp add: sends_only_same_log)
  have "\<not> truthy (authToken (state ?w2))" using 1 assms(1) by simp
  then have 3: "sends_only [''createSession''] ?w2 w'"
    using retry(3) by (simp add: submit_gated_internal)
  from 1 2 3 show ?thesis using sends_only_trans by (blast dest: transpD)
qed

lemma submit_declined:
  assumes "truthy (authToken (state w))"
    and "ensureSession ev w = (Inr cid, w1)"
    and "z_object_parse submitOrderSchema a = Inr p"
    and "submitOrder ev cid (authToken (state w)) (field p ''paymentAccountId'') w1 = (Inr result, w2)"
    and "getProp result ''success'' = Inr s" and "\<not> truthy s"
    and "getProp result ''error'' = Inr err"
  shows "executeToolInternal ev ''submit_order'' a w =
           (Inl (Error (toString (js_or err (JStr ''Order submission failed'')))), w2)"
proof -
  have t: "authToken (state w1) = authToken (state w)"
    using assms(2) by (rule ensureSession_authToken)
  obtain l where l: "getProp result ''leadTimePrompt'' = Inr l"
    using assms(5) by (cases result) auto
  obtain ord where ord: "getProp result ''orderId'' = Inr ord"
    using assms(5) by (cases result) auto
  show ?thesis
    using assms t l ord
    by (simp add: executeToolInternal_alt submit_order_case_def and_then_Inr throws_def)
qed

subsection \<open>Unknown tools\<close>

lemma dispatch_unknown:
  "name \<notin> set tool_names \<Longrightarrow> dispatch ev name cid tok a = throws (Error (''Unknown tool: '' @ name))"
  by (simp add: dispatch_def tool_names_def)

lemma session_first:
  "ensureSession ev w = (Inl e, w1) \<Longrightarrow> executeToolInternal ev name a w = (Inl e, w1)"
  by (simp add: executeToolInternal_alt)

lemma unknown_after_session:
  "name \<notin> set tool_names \<Longrightarrow> ensureSession ev w = (Inr cid, w1) \<Longrightarrow>
   executeToolInternal ev name a w = (Inl (Error (''Unknown tool: '' @ name)), w1)"
  by (simp add: executeToolInternal_alt dispatch_unknown throws_def)

lemma unknown_same_but_chatId:
  assumes "name \<notin> set tool_names"
  shows "same_but_chatId w (snd (executeToolInternal ev name a w))"
proof (cases "ensureSession ev w")
  case (Pair x w1)
  have "same_but_chatId w w1" using ensureSession_same_but_chatId Pair by (rule keepsD)
  with Pair assms show ?thesis
    by (cases x) (simp_all add: session_first unknown_after_session)
qed

lemma ensureSession_created:
  assumes "\<not> truthy (chatId (state w))"
    and "backend ev (sent w @ [guest_session_request ev]) = HttpOk res"
    and "getProp res ''chatId'' = Inr c"
  shows "ensureSession ev w = (Inr c, setChatId c (w\<lparr>sent := sent w @ [guest_session_request ev]\<rparr>))"
  using assms by (simp add: ensureSession_new Let_def)

subsection \<open>The snapshot\<close>

lemma jsonify_id: "is_json v \<Longrightarrow> jsonify v = v"
proof (induction v rule: jsonify.induct)
  case (1 xs)
  then have "map (\<lambda>x. if x = JUndefined then JNull else jsonify x) xs = map (\<lambda>x. x) xs"
    by (intro map_cong) auto
  then show ?case by simp
next
  case (2 kvs)
  have nu: "snd kv \<noteq> JUndefined" if "kv \<in> set kvs" for kv
    using 2(2) that by auto
  then have f: "filter (\<lambda>kv. snd kv \<noteq> JUndefined) kvs = kvs"
    by (simp add: filter_id_conv)
  have "jsonify (snd kv) = snd kv" if "kv \<in> set kvs" for kv
    using 2(1) [of kv] 2(2) nu that by (simp add: f)
  then have "map (\<lambda>kv. (fst kv, jsonify (snd kv))) kvs = map (\<lambda>kv. kv) kvs"
    by (intro map_cong) auto
  with f show ?case by simp
qed simp_all

lemma load_snapshot:
  assumes "is_json (chatId st)" and "is_json (authToken st)" and "is_json (phoneNumber st)"
    and "is_json (searchResults st)"
  shows "load_state (Snapshot (snapshot_of st)) = st"
proof -
  have "snapshot_of st = JObj [(''chatId'', chatId st), (''authToken'', authToken st),
       (''phoneNumber'', phoneNumber st), (''searchResults'', searchResults st)]"
    unfolding snapshot_of_def by (rule jsonify_id) (simp add: assms)
  then show ?thesis by (simp add: load_state_def spread_field_def)
qed

lemma load_saved:
  "load_state (Snapshot (snapshot_of st)) =
     \<lparr>chatId = restored (chatId st) JNull, authToken = restored (authToken st) JNull,
      phoneNumber = restored (phoneNumber st) JNull,
      searchResults = restored (searchResults st) (JArr [])\<rparr>"
  by (simp add: load_state_def snapshot_of_def spread_field_def restored_def initial_state_def)

lemma restored_json: "is_json v \<Longrightarrow> restored v d = v"
  by (cases "v = JUndefined") (simp_all add: restored_def jsonify_id)

subsection \<open>add_to_basket\<close>

lemma dispatch_add [simp]:
  "dispatch ev ''add_to_basket'' cid tok a = add_to_basket_case ev cid tok a"
  by (simp add: dispatch_def)

lemma ensureSession_searchResults:
  "ensureSession ev w = (r, w1) \<Longrightarrow> searchResults (state w1) = searchResults (state w)"
  using keepsD [OF ensureSession_same_but_chatId] by (fastforce simp: same_but_chatId_def)

lemma validate_rejects:
  assumes "items \<noteq> []" and "map_prop items ''menuItemId'' = Inr ids" and "i \<notin> set ids"
  shows "validate_against_search ev (JArr items) i =
           Inl (Error (''Invalid menuItemId. Valid IDs: '' @ join ids '', ''))"
  using assms by (simp add: validate_against_search_def)

lemma validate_empty: "validate_against_search ev (JArr []) i = Inr ()"
  by (simp add: validate_against_search_def)

lemma and_then_pure:
  "and_then (\<lambda>w. (f w, w)) g w = (case f w of Inl e \<Rightarrow> (Inl e, w) | Inr x \<Rightarrow> g x w)"
  by (simp add: and_then_def split: sum.splits)

lemma add_rejected_case:
  assumes "searchResults (state w) = JArr items" and "items \<noteq> []"
    and "z_object_parse addToBasketSchema a = Inr p"
    and "map_prop items ''menuItemId'' = Inr ids"
    and "field p ''menuItemId'' \<notin> set ids"
  shows "add_to_basket_case ev cid tok a w =
           (Inl (Error (''Invalid menuItemId. Valid IDs: '' @ join ids '', '')), w)"
  using assms
  by (simp add: add_to_basket_case_def Let_def getSearchResults_def validate_rejects
      and_then_pure)

lemma add_rejected_internal:
  assumes "searchResults (state w) = JArr items" and "items \<noteq> []"
    and "z_object_parse addToBasketSchema a = Inr p"
    and "map_prop items ''menuItemId'' = Inr ids"
    and "field p ''menuItemId'' \<notin> set ids"
  shows "isl (fst (executeToolInternal ev ''add_to_basket'' a w))
       \<and> sends_only [''createSession''] w (snd (executeToolInternal ev ''add_to_basket'' a w))
       \<and> searchResults (state (snd (executeToolInternal ev ''add_to_basket'' a w)))
           = searchResults (state w)
       \<and> (ensureSession ev w = (Inr cid, w1) \<longrightarrow>
            executeToolInternal ev ''add_to_basket'' a w =
              (Inl (Error (''Invalid menuItemId. Valid IDs: '' @ join ids '', '')), w1))"
proof (cases "ensureSession ev w")
  case (Pair x w')
  have s: "sends_only [''createSession''] w w'"
    using ensureSession_sends Pair by (rule keepsD)
  have c: "searchResults (state w') = JArr items"
    using ensureSession_searchResults [OF Pair] assms(1) by simp
  show ?thesis
  proof (cases x)
    case (Inl e)
    with Pair s c assms(1) show ?thesis by (simp add: executeToolInternal_alt)
  next
    case (Inr cid')
    have "executeToolInternal ev ''add_to_basket'' a w =
            (Inl (Error (''Invalid menuItemId. Valid IDs: '' @ join ids '', '')), w')"
      using Pair Inr by (simp add: executeToolInternal_alt add_rejected_case [OF c assms(2-5)])
    with Pair Inr s c assms(1) show ?thesis by auto
  qed
qed

lemma add_rejected_tool:
  assumes "searchResults (state w) = JArr items" and "items \<noteq> []"
    and "z_object_parse addToBasketSchema a = Inr p"
    and "map_prop items ''menuItemId'' = Inr ids"
    and "field p ''menuItemId'' \<notin> set ids"
  shows "isl (fst (executeTool ev ''add_to_basket'' a w))
       \<and> sends_only [''createSession''] w (snd (executeTool ev ''add_to_basket'' a w))"
proof -
  obtain r w' where run: "executeTool ev ''add_to_basket'' a w = (r, w')"
    by (cases "executeTool ev ''add_to_basket'' a w")
  from run have "isl r \<and> sends_only [''createSession''] w w'"
  proof (cases rule: executeTool_cases)
    case first
    with add_rejected_internal [OF assms, of ev] show ?thesis by simp
  next
    case (retry e w1)
    let ?w2 = "setChatId (JStr []) w1"
    have 1: "sends_only [''createSession''] w w1 \<and> searchResults (state w1) = JArr items"
      using add_rejected_internal [OF assms, of ev] retry(1) assms(1) by simp
    then have c: "searchResults (state ?w2) = JArr items" by simp
    have 2: "sends_only [''createSession''] w1 ?w2" by (simp add: sends_only_same_log)
    have 3: "isl r \<and> sends_only [''createSession''] ?w2 w'"
      using add_rejected_internal [OF c assms(2-5), of ev] retry(3) by simp
    from 1 2 3 show ?thesis using sends_only_trans by (blast dest: transpD)
  qed
  with run show ?thesis by simp
qed

lemma callApi_first_request:
  "callApi ev act as auth w = (r, w') \<Longrightarrow> sent w' = sent w @ [api_request ev act as auth]"
  by (drule callApi_world) simp

subsection \<open>The log only grows\<close>

lemma log_extends_iff: "log_extends w w' \<longleftrightarrow> (\<exists>new. sent w' = sent w @ new)"
proof
  assume "log_extends w w'"
  then have "sent w' = sent w @ drop (length (sent w)) (sent w')"
    unfolding log_extends_def by (metis append_take_drop_id)
  then show "\<exists>new. sent w' = sent w @ new" ..
next
  assume "\<exists>new. sent w' = sent w @ new"
  then show "log_extends w w'" by (auto simp: log_extends_def)
qed

lemma log_extends_refl: "reflp log_extends"
  by (simp add: reflp_def log_extends_iff)

lemma log_extends_trans: "transp log_extends"
  unfolding transp_def log_extends_iff by auto

lemma sends_only_log_extends: "sends_only acts w w' \<Longrightarrow> log_extends w w'"
  by (auto simp: sends_only_iff log_extends_iff)

lemma log_extends_same: "sent w' = sent w \<Longrightarrow> log_extends w w'"
  by (simp add: log_extends_iff)

lemma keeps_step: "(\<And>w. R w (g w)) \<Longrightarrow> keeps R (\<lambda>w. (x, g w))"
  by (simp add: keeps_def)

lemma callApi_log: "keeps log_extends (callApi ev act as auth)"
  by (rule keeps_callApi) (simp add: log_extends_iff)

lemmas log_intros =
  keeps_and_then keeps_returns keeps_throws keeps_lift keeps_pure keeps_if keeps_step
  callApi_log log_extends_refl log_extends_trans

lemma ensureSession_log: "keeps log_extends (ensureSession ev)"
  by (rule keeps_weaken [OF ensureSession_sends]) (rule sends_only_log_extends)

lemma dispatch_log: "keeps log_extends (dispatch ev name cid tok a)"
  unfolding dispatch_def search_menu_case_def add_to_basket_case_def view_basket_case_def
    remove_from_basket_case_def clear_basket_case_def submit_order_case_def send_otp_case_def
    verify_otp_case_def searchMenu_def getBasket_def updateBasket_def clearBasket_def
    submitOrder_def sendOTP_def verifyOTP_def Let_def
  by (intro log_intros) (simp_all add: log_extends_same)

lemma executeToolInternal_log: "keeps log_extends (executeToolInternal ev name a)"
  by (intro keeps_executeToolInternal log_extends_trans ensureSession_log dispatch_log)

lemma sent_then_kept:
  assumes "log_extends w w1" and "sent w2 = sent w1 @ [q]" and "log_extends w2 w'"
  shows "q \<in> set (new_requests w w')"
proof -
  from assms(1) obtain n1 where 1: "sent w1 = sent w @ n1" by (auto simp: log_extends_iff)
  from assms(3) obtain n2 where 2: "sent w' = sent w2 @ n2" by (auto simp: log_extends_iff)
  from 1 2 assms(2) show ?thesis by (simp add: new_requests_def)
qed

lemma in_new_requests_mono:
  assumes "q \<in> set (new_requests w w1)" and "log_extends w w1" and "log_extends w1 w'"
  shows "q \<in> set (new_requests w w')"
proof -
  from assms(2) obtain n1 where 1: "sent w1 = sent w @ n1" by (auto simp: log_extends_iff)
  from assms(3) obtain n2 where 2: "sent w' = sent w1 @ n2" by (auto simp: log_extends_iff)
  from 1 2 assms(1) show ?thesis by (simp add: new_requests_def)
qed

subsection \<open>Basket mutations reach the backend\<close>

lemma and_then_first_request:
  assumes "\<And>x. keeps log_extends (f x)"
  shows "\<exists>w2. sent w2 = sent w @ [api_request ev act as auth]
            \<and> log_extends w2 (snd (and_then (callApi ev act as auth) f w))"
proof (cases "callApi ev act as auth w")
  case (Pair r w2)
  then have s: "sent w2 = sent w @ [api_request ev act as auth]" by (rule callApi_first_request)
  show ?thesis
  proof (cases r)
    case (Inl e)
    with Pair s show ?thesis by (auto simp: and_then_Inl log_extends_iff)
  next
    case (Inr x)
    have "log_extends w2 (snd (f x w2))" using assms by (simp add: keeps_def)
    with Pair Inr s show ?thesis by (auto simp: and_then_Inr)
  qed
qed

lemma remove_case_forwards:
  assumes "z_object_parse removeFromBasketSchema a = Inr p"
  shows "\<exists>w2. sent w2 = sent w @ [remove_request ev cid tok p]
            \<and> log_extends w2 (snd (remove_from_basket_case ev cid tok a w))"
  using assms
  unfolding remove_from_basket_case_def updateBasket_def getBasket_def remove_request_def
  apply (simp add: Let_def)
  apply (rule and_then_first_request)
  apply (intro log_intros)
  done

lemma add_case_forwards:
  assumes "z_object_parse addToBasketSchema a = Inr p"
    and "searchResults (state w) = JArr []"
  shows "\<exists>w2. sent w2 = sent w @ [add_request ev cid tok p]
            \<and> log_extends w2 (snd (add_to_basket_case ev cid tok a w))"
  using assms
  unfolding add_to_basket_case_def updateBasket_def getBasket_def add_request_def
  apply (simp add: Let_def and_then_pure getSearchResults_def validate_empty)
  apply (rule and_then_first_request)
  apply (intro log_intros)
  done

lemma dispatch_remove [simp]:
  "dispatch ev ''remove_from_basket'' cid tok a = remove_from_basket_case ev cid tok a"
  by (simp add: dispatch_def)

lemma remove_forwarded:
  assumes "z_object_parse removeFromBasketSchema a = Inr p"
    and "ensureSession ev w = (Inr cid, w1)"
  shows "remove_request ev cid (authToken (state w)) p
           \<in> set (new_requests w (snd (executeTool ev ''remove_from_basket'' a w)))"
proof -
  let ?q = "remove_request ev cid (authToken (state w)) p"
  have t: "authToken (state w1) = authToken (state w)"
    using assms(2) by (rule ensureSession_authToken)
  have 1: "log_extends w w1" using ensureSession_log assms(2) by (rule keepsD)
  obtain w2 where 2: "sent w2 = sent w1 @ [?q]"
    and 3: "log_extends w2 (snd (remove_from_basket_case ev cid (authToken (state w)) a w1))"
    using remove_case_forwards [OF assms(1)] by blast
  have i: "executeToolInternal ev ''remove_from_basket'' a w
             = remove_from_basket_case ev cid (authToken (state w)) a w1"
    using assms(2) t by (simp add: executeToolInternal_alt)
  have 4: "?q \<in> set (new_requests w (snd (executeToolInternal ev ''remove_from_basket'' a w)))"
    using 1 2 3 unfolding i by (rule sent_then_kept)
  obtain r w' where run: "executeTool ev ''remove_from_basket'' a w = (r, w')"
    by (cases "executeTool ev ''remove_from_basket'' a w")
  from run have "?q \<in> set (new_requests w w')"
  proof (cases rule: executeTool_cases)
    case first
    with 4 show ?thesis by simp
  next
    case (retry e w3)
    have a: "log_extends w w3" using executeToolInternal_log retry(1) by (rule keepsD)
    have "log_extends w3 (setChatId (JStr []) w3)" by (simp add: log_extends_same)
    moreover have "log_extends (setChatId (JStr []) w3) w'"
      using executeToolInternal_log retry(3) by (rule keepsD)
    ultimately have b: "log_extends w3 w'" using log_extends_trans by (blast dest: transpD)
    from 4 retry(1) have "?q \<in> set (new_requests w w3)" by simp
    then show ?thesis using a b by (rule in_new_requests_mono)
  qed
  with run show ?thesis by simp
qed

lemma add_forwarded:
  assumes "z_object_parse addToBasketSchema a = Inr p"
    and "searchResults (state w) = JArr []"
    and "ensureSession ev w = (Inr cid, w1)"
  shows "add_request ev cid (authToken (state w)) p
           \<in> set (new_requests w (snd (executeTool ev ''add_to_basket'' a w)))"
proof -
  let ?q = "add_request ev cid (authToken (state w)) p"
  have t: "authToken (state w1) = authToken (state w)"
    using assms(3) by (rule ensureSession_authToken)
  have c: "searchResults (state w1) = JArr []"
    using ensureSession_searchResults [OF assms(3)] assms(2) by simp
  have 1: "log_extends w w1" using ensureSession_log assms(3) by (rule keepsD)
  obtain w2 where 2: "sent w2 = sent w1 @ [?q]"
    and 3: "log_extends w2 (snd (add_to_basket_case ev cid (authToken (state w)) a w1))"
    using add_case_forwards [OF assms(1) c] by blast
  have i: "executeToolInternal ev ''add_to_basket'' a w
             = add_to_basket_case ev cid (authToken (state w)) a w1"
    using assms(3) t by (simp add: executeToolInternal_alt)
  have 4: "?q \<in> set (new_requests w (snd (executeToolInternal ev ''add_to_basket'' a w)))"
    using 1 2 3 unfolding i by (rule sent_then_kept)
  obtain r w' where run: "executeTool ev ''add_to_basket'' a w = (r, w')"
    by (cases "executeTool ev ''add_to_basket'' a w")
  from run have "?q \<in> set (new_requests w w')"
  proof (cases rule: executeTool_cases)
    case first
    with 4 show ?thesis by simp
  next
    case (retry e w3)
    have a: "log_extends w w3" using executeToolInternal_log retry(1) by (rule keepsD)
    have "log_extends w3 (setChatId (JStr []) w3)" by (simp add: log_extends_same)
    moreover have "log_extends (setChatId (JStr []) w3) w'"
      using executeToolInternal_log retry(3) by (rule keepsD)
    ultimately have b: "log_extends w3 w'" using log_extends_trans by (blast dest: transpD)
    from 4 retry(1) have "?q \<in> set (new_requests w w3)" by simp
    then show ?thesis using a b by (rule in_new_requests_mono)
  qed
  with run show ?thesis by simp
qed

subsection \<open>Tools that do not read the last search\<close>

lemma cache_blindD:
  "cache_blind m \<Longrightarrow> agree w v \<Longrightarrow> fst (m w) = fst (m v) \<and> agree (snd (m w)) (snd (m v))"
  by (simp add: cache_blind_def)

lemma blind_returns: "cache_blind (returns a)"
  by (simp add: cache_blind_def returns_def)

lemma blind_throws: "cache_blind (throws e)"
  by (simp add: cache_blind_def throws_def)

lemma blind_lift: "cache_blind (lift r)"
  by (simp add: cache_blind_def lift_def)

lemma blind_if: "cache_blind m \<Longrightarrow> cache_blind n \<Longrightarrow> cache_blind (if c then m else n)"
  by simp

lemma blind_step: "(\<And>w v. agree w v \<Longrightarrow> agree (g w) (g v)) \<Longrightarrow> cache_blind (\<lambda>w. (x, g w))"
  by (simp add: cache_blind_def)

lemma blind_and_then:
  assumes "cache_blind m" and "\<And>x. cache_blind (f x)"
  shows "cache_blind (and_then m f)"
  unfolding cache_blind_def
proof (intro allI impI)
  fix w v
  assume a: "agree w v"
  obtain r w1 where mw: "m w = (r, w1)" by (cases "m w")
  obtain s v1 where mv0: "m v = (s, v1)" by (cases "m v")
  from cache_blindD [OF assms(1) a] mw mv0 have mv: "m v = (r, v1)" and a1: "agree w1 v1"
    by simp_all
  show "fst (and_then m f w) = fst (and_then m f v)
      \<and> agree (snd (and_then m f w)) (snd (and_then m f v))"
  proof (cases r)
    case (Inl e)
    with mw mv a1 show ?thesis by (simp add: and_then_Inl)
  next
    case (Inr x)
    with mw mv cache_blindD [OF assms(2) a1, of x] show ?thesis by (simp add: and_then_Inr)
  qed
qed

lemma blind_callApi: "cache_blind (callApi ev act as auth)"
  by (simp add: cache_blind_def callApi_def Let_def agree_def split: response.splits)

lemma blind_read:
  assumes "\<And>x. cache_blind (f x)" and "\<And>w v. agree w v \<Longrightarrow> g w = g v"
  shows "cache_blind (\<lambda>w. f (g w) w)"
  unfolding cache_blind_def
proof (intro allI impI)
  fix w v
  assume a: "agree w v"
  then have "g w = g v" by (rule assms(2))
  with cache_blindD [OF assms(1) a, of "g v"]
  show "fst (f (g w) w) = fst (f (g v) v) \<and> agree (snd (f (g w) w)) (snd (f (g v) v))"
    by simp
qed

lemma agree_setChatId: "agree w v \<Longrightarrow> agree (setChatId c w) (setChatId c v)"
  by (simp add: agree_def)

lemma agree_setAuthToken: "agree w v \<Longrightarrow> agree (setAuthToken t p w) (setAuthToken t p v)"
  by (simp add: agree_def)

lemma agree_setSearchResults: "agree w v \<Longrightarrow> agree (setSearchResults x w) (setSearchResults y v)"
  by (simp add: agree_def)

lemmas blind_intros =
  blind_and_then blind_returns blind_throws blind_lift blind_if blind_callApi blind_step
  agree_setChatId agree_setAuthToken agree_setSearchResults

lemma blind_ensureSession: "cache_blind (ensureSession ev)"
proof -
  let ?f = "\<lambda>cid. if \<not> truthy cid
          then and_then (createSession ev JUndefined) (\<lambda>result.
                 and_then (lift (getProp result ''chatId'')) (\<lambda>cid'.
                   (\<lambda>w'. (Inr cid', setChatId cid' w'))))
          else returns cid"
  have "ensureSession ev = (\<lambda>w. ?f (getChatId w) w)"
    by (rule ext) (simp add: ensureSession_def Let_def returns_def)
  moreover have "cache_blind (?f cid)" for cid
    unfolding createSession_def by (intro blind_intros)
  then have "cache_blind (\<lambda>w. ?f (getChatId w) w)"
    by (rule blind_read) (simp add: agree_def getChatId_def)
  ultimately show ?thesis by simp
qed

lemma blind_dispatch:
  "name \<noteq> ''add_to_basket'' \<Longrightarrow> cache_blind (dispatch ev name cid tok a)"
  unfolding dispatch_def search_menu_case_def view_basket_case_def
    remove_from_basket_case_def clear_basket_case_def submit_order_case_def send_otp_case_def
    verify_otp_case_def searchMenu_def getBasket_def updateBasket_def clearBasket_def
    submitOrder_def sendOTP_def verifyOTP_def Let_def
  by (simp only: if_False) (intro blind_intros; assumption)

lemma blind_executeToolInternal:
  assumes "name \<noteq> ''add_to_basket''"
  shows "cache_blind (executeToolInternal ev name a)"
  unfolding executeToolInternal_def
proof (rule blind_and_then [OF blind_ensureSession])
  fix cid
  show "cache_blind (\<lambda>w. dispatch ev name cid (getAuthToken w) a w)"
    by (rule blind_read [where f = "\<lambda>tok. dispatch ev name cid tok a"])
      (simp_all add: blind_dispatch [OF assms] agree_def getAuthToken_def)
qed

lemma blind_executeTool:
  assumes "name \<noteq> ''add_to_basket''"
  shows "cache_blind (executeTool ev name a)"
  unfolding cache_blind_def
proof (intro allI impI)
  fix w v
  assume a: "agree w v"
  let ?m = "executeToolInternal ev name a"
  have b: "cache_blind ?m" using assms by (rule blind_executeToolInternal)
  obtain r w1 where mw: "?m w = (r, w1)" by (cases "?m w")
  obtain s v1 where mv0: "?m v = (s, v1)" by (cases "?m v")
  from cache_blindD [OF b a] mw mv0 have mv: "?m v = (r, v1)" and a1: "agree w1 v1"
    by simp_all
  show "fst (executeTool ev name a w) = fst (executeTool ev name a v)
      \<and> agree (snd (executeTool ev name a w)) (snd (executeTool ev name a v))"
  proof (cases r)
    case (Inr x)
    with mw mv a1 show ?thesis by (simp add: executeTool_Inr)
  next
    case (Inl e)
    have "agree (setChatId (JStr []) w1) (setChatId (JStr []) v1)"
      using a1 by (rule agree_setChatId)
    from cache_blindD [OF b this] Inl mw mv a1 show ?thesis
      by (simp add: executeTool_Inl)
  qed
qed

lemma cache_independent:
  assumes "name \<noteq> ''add_to_basket''"
  shows "fst (executeTool ev name a (w\<lparr>state := (state w)\<lparr>searchResults := c\<rparr>\<rparr>))
           = fst (executeTool ev name a w)
       \<and> sent (snd (executeTool ev name a (w\<lparr>state := (state w)\<lparr>searchResults := c\<rparr>\<rparr>)))
           = sent (snd (executeTool ev name a w))"
proof -
  have "agree (w\<lparr>state := (state w)\<lparr>searchResults := c\<rparr>\<rparr>) w" by (simp add: agree_def)
  from cache_blindD [OF blind_executeTool [OF assms] this] show ?thesis
    by (simp add: agree_def)
qed

subsection \<open>Authentication\<close>

lemma verify_parsed_phone:
  assumes "z_object_parse verifyOtpSchema a = Inr p"
  shows "\<exists>s. field p ''phoneNumber'' = JStr s"
proof (cases a)
  case (JObj kvs)
  show ?thesis
  proof (cases "field kvs ''phoneNumber''")
    case (JStr s)
    with assms JObj show ?thesis
      by (auto simp: z_object_parse_def verifyOtpSchema_def Let_def field_def split: if_splits)
  qed (use assms JObj in \<open>simp_all add: z_object_parse_def verifyOtpSchema_def Let_def
         z_string_def parsedType_def\<close>)
qed (use assms in \<open>simp_all add: z_object_parse_def\<close>)

lemma callApi_state: "callApi ev act as auth w = (r, w') \<Longrightarrow> state w' = state w"
  by (drule callApi_world) simp

lemma getProp_defined: "getProp v k = Inr x \<Longrightarrow> \<exists>y. getProp v k' = Inr y"
  by (cases v) auto

text \<open>What the \<open>verify_otp\<close> case does, by the response of the backend.\<close>

lemma verify_case_run:
  assumes "z_object_parse verifyOtpSchema a = Inr p"
    and "verifyOTP ev (field p ''phoneNumber'') (field p ''code'') cid w1 = (Inr result, w2)"
    and "getProp result ''success'' = Inr s"
    and "getProp result ''token'' = Inr t"
    and "getProp result ''error'' = Inr err"
  shows "verify_otp_case ev cid tok a w1 =
     (if \<not> truthy s \<or> \<not> truthy t
      then (Inl (Error (toString (js_or err (JStr ''OTP verification failed'')))), w2)
      else (Inr (JObj
         [(''content'', text_content (JStr ''Authentication successful!'')),
          (''structuredContent'', JObj
             [(''authenticated'', JBool True), (''phoneNumber'', field p ''phoneNumber'')]),
          (''_meta'', JObj [(''openai/outputTemplate'', JStr LOGIN_WIDGET_URI)])]),
          setAuthToken t (field p ''phoneNumber'') w2))"
  using assms by (simp add: verify_otp_case_def Let_def and_then_Inr throws_def)

lemma verify_case_effect:
  assumes "verify_otp_case ev cid tok a w = (r, w')"
  shows "(isl r \<and> state w' = state w)
       \<or> (\<not> isl r \<and> truthy (authToken (state w')) \<and> (\<exists>s. phoneNumber (state w') = JStr s)
            \<and> chatId (state w') = chatId (state w)
            \<and> searchResults (state w') = searchResults (state w))"
proof (cases "z_object_parse verifyOtpSchema a")
  case (Inl e)
  with assms show ?thesis by (auto simp: verify_otp_case_def throws_def)
next
  case (Inr p)
  obtain s where ph: "field p ''phoneNumber'' = JStr s" using verify_parsed_phone [OF Inr] ..
  obtain x w2 where call:
    "verifyOTP ev (field p ''phoneNumber'') (field p ''code'') cid w = (x, w2)"
    by (cases "verifyOTP ev (field p ''phoneNumber'') (field p ''code'') cid w")
  then have st: "state w2 = state w" unfolding verifyOTP_def by (rule callApi_state)
  show ?thesis
  proof (cases x)
    case (Inl e)
    with assms Inr call st show ?thesis
      by (auto simp: verify_otp_case_def Let_def and_then_Inl)
  next
    case res: (Inr result)
    show ?thesis
    proof (cases "getProp result ''success''")
      case (Inl e)
      have "verify_otp_case ev cid tok a w = (Inl e, w2)"
        using Inr call res Inl by (simp add: verify_otp_case_def Let_def and_then_Inr throws_def)
      with assms st show ?thesis by auto
    next
      case suc: (Inr sv)
      obtain t where t: "getProp result ''token'' = Inr t"
        using getProp_defined [OF suc] by blast
      obtain err where err: "getProp result ''error'' = Inr err"
        using getProp_defined [OF suc] by blast
      from call res have c: "verifyOTP ev (field p ''phoneNumber'') (field p ''code'') cid w
          = (Inr result, w2)" by simp
      from verify_case_run [OF Inr c suc t err, of tok] assms st ph show ?thesis
        by (auto split: if_splits)
    qed
  qed
qed

lemma other_cases_keep_auth:
  "name \<noteq> ''verify_otp'' \<Longrightarrow> keeps auth_kept (dispatch ev name cid tok a)"
  unfolding dispatch_def search_menu_case_def add_to_basket_case_def view_basket_case_def
    remove_from_basket_case_def clear_basket_case_def submit_order_case_def send_otp_case_def
    searchMenu_def getBasket_def updateBasket_def clearBasket_def
    submitOrder_def sendOTP_def Let_def
  by (simp only: if_False)
     (intro keeps_intros keeps_step auth_kept_refl auth_kept_trans; simp add: auth_kept_def)

lemma dispatch_verify [simp]:
  "dispatch ev ''verify_otp'' cid tok a = verify_otp_case ev cid tok a"
  by (simp add: dispatch_def)

lemma internal_auth:
  assumes "executeToolInternal ev name a w = (r, w')"
  shows "auth_kept w w'
       \<or> (name = ''verify_otp'' \<and> \<not> isl r \<and> truthy (authToken (state w'))
            \<and> (\<exists>s. phoneNumber (state w') = JStr s))"
proof (cases "ensureSession ev w")
  case (Pair x w1)
  have k: "auth_kept w w1"
    using keepsD [OF ensureSession_same_but_chatId Pair] by (rule same_but_chatId_auth_kept)
  show ?thesis
  proof (cases x)
    case (Inl e)
    with Pair assms k show ?thesis by (simp add: executeToolInternal_alt)
  next
    case (Inr cid)
    with Pair assms have d: "dispatch ev name cid (authToken (state w1)) a w1 = (r, w')"
      by (simp add: executeToolInternal_alt)
    show ?thesis
    proof (cases "name = ''verify_otp''")
      case False
      then have "auth_kept w1 w'" using other_cases_keep_auth d by (blast dest: keepsD)
      with k show ?thesis by (simp add: auth_kept_def)
    next
      case True
      with d verify_case_effect [of ev cid "authToken (state w1)" a w1 r w'] k
      show ?thesis by (auto simp: auth_kept_def)
    qed
  qed
qed

lemma tool_auth:
  assumes "executeTool ev name a w = (r, w')"
  shows "auth_kept w w'
       \<or> (name = ''verify_otp'' \<and> \<not> isl r \<and> truthy (authToken (state w'))
            \<and> (\<exists>s. phoneNumber (state w') = JStr s))"
  using assms
proof (cases rule: executeTool_cases)
  case first
  then show ?thesis by (rule internal_auth)
next
  case (retry e w1)
  from internal_auth [OF retry(1)] have 1: "auth_kept w w1" by simp
  have 2: "auth_kept w1 (setChatId (JStr []) w1)" by (simp add: auth_kept_def)
  from internal_auth [OF retry(3)] 1 2 show ?thesis by (auto simp: auth_kept_def)
qed

lemma truthy_is_set: "truthy v \<Longrightarrow> is_set v"
  by (cases v) (simp_all add: is_set_def)

lemma tool_keeps_atomic:
  assumes "auth_atomic (state w)"
  shows "auth_atomic (state (snd (executeTool ev name a w)))"
proof -
  obtain r w' where run: "executeTool ev name a w = (r, w')"
    by (cases "executeTool ev name a w")
  from tool_auth [OF run] assms have "auth_atomic (state w')"
    by (auto simp: auth_atomic_def auth_kept_def truthy_is_set is_set_def)
  with run show ?thesis by simp
qed

lemma snd_callToolHandler:
  "snd (callToolHandler ev name a w) = snd (executeTool ev name (nullish_or a (JObj [])) w)"
  by (simp add: callToolHandler_def split: prod.splits sum.splits)

lemma apply_op_atomic: "auth_atomic (state w) \<Longrightarrow> auth_atomic (state (apply_op ev x w))"
proof (cases x)
  case (ToolCall name a)
  assume "auth_atomic (state w)"
  then show ?thesis unfolding ToolCall by (simp add: snd_callToolHandler tool_keeps_atomic)
qed (simp_all add: auth_atomic_def is_set_def)

lemma run_ops_atomic: "auth_atomic (state w) \<Longrightarrow> auth_atomic (state (run_ops ev xs w))"
  by (induction xs arbitrary: w) (simp_all add: apply_op_atomic)

lemma initial_atomic: "auth_atomic initial_state"
  by (simp add: auth_atomic_def initial_state_def)

lemma verify_internal_run:
  assumes "ensureSession ev w = (Inr cid, w1)"
    and "z_object_parse verifyOtpSchema a = Inr p"
    and "verifyOTP ev (field p ''phoneNumber'') (field p ''code'') cid w1 = (Inr result, w2)"
    and "getProp result ''success'' = Inr s"
    and "getProp result ''token'' = Inr t"
    and "getProp result ''error'' = Inr err"
  shows "executeToolInternal ev ''verify_otp'' a w =
     (if \<not> truthy s \<or> \<not> truthy t
      then (Inl (Error (toString (js_or err (JStr ''OTP verification failed'')))), w2)
      else (Inr (JObj
         [(''content'', text_content (JStr ''Authentication successful!'')),
          (''structuredContent'', JObj
             [(''authenticated'', JBool True), (''phoneNumber'', field p ''phoneNumber'')]),
          (''_meta'', JObj [(''openai/outputTemplate'', JStr LOGIN_WIDGET_URI)])]),
          setAuthToken t (field p ''phoneNumber'') w2))"
  using assms(1) verify_case_run [OF assms(2-6)] by (simp add: executeToolInternal_alt)

section \<open>The claims\<close>

subsection \<open>C1: checkout is gated by the auth token\<close>

text \<open>
  Claim C1, as amended.  Take a \<open>submit_order\<close> invocation made while the Session
  Store holds no auth token.  The \<open>submitOrder\<close> gateway operation is never invoked,
  whatever happens (first attempt or retry).  If \<open>ensureSession\<close> yields a session id
  (one is stored, or the guest session is created), the executor returns, without
  throwing, the result whose \<open>structuredContent.error\<close> is
  \<open>authentication_required\<close> and whose UI directive names the login widget; if
  \<open>ensureSession\<close> throws, that error is thrown by the dispatch instead.  When a
  token is held and the backend answers the order with a falsy \<open>success\<close>, the
  dispatch throws an error whose message is \<open>result.error\<close>, or
  \<open>Order submission failed\<close> when there is none; the executor throws it on, unless
  the message carries the expiry marker and the one retry of C2 takes over.
\<close>

theorem submit_order_gate:
  "(\<not> truthy (authToken (state w)) \<longrightarrow>
      (\<forall>q \<in> set (new_requests w (snd (executeTool ev ''submit_order'' a w))).
          action q \<noteq> ''submitOrder'')
    \<and> (ensureSession ev w = (Inr cid, w1) \<longrightarrow>
          executeTool ev ''submit_order'' a w = (Inr authResponse, w1))
    \<and> (ensureSession ev w = (Inl e, w1) \<longrightarrow>
          executeToolInternal ev ''submit_order'' a w = (Inl e, w1)))
   \<and> path_get authResponse [''structuredContent'', ''error'']
       = Inr (JStr ''authentication_required'')
   \<and> path_get authResponse [''_meta'', ''openai/outputTemplate''] = Inr (JStr LOGIN_WIDGET_URI)
   \<and> (truthy (authToken (state w)) \<and> ensureSession ev w = (Inr cid, w1)
      \<and> z_object_parse submitOrderSchema a = Inr p
      \<and> submitOrder ev cid (authToken (state w)) (field p ''paymentAccountId'') w1
           = (Inr result, w2)
      \<and> getProp result ''success'' = Inr s \<and> \<not> truthy s
      \<and> getProp result ''error'' = Inr err \<longrightarrow>
        executeToolInternal ev ''submit_order'' a w =
           (Inl (Error (toString (js_or err (JStr ''Order submission failed'')))), w2)
      \<and> (\<not> str_includes (toString (js_or err (JStr ''Order submission failed'')))
                expiry_marker \<longrightarrow>
           executeTool ev ''submit_order'' a w =
             (Inl (Error (toString (js_or err (JStr ''Order submission failed'')))), w2)))"
proof (intro conjI impI)
  assume h: "\<not> truthy (authToken (state w))"
  obtain r w' where run: "executeTool ev ''submit_order'' a w = (r, w')"
    by (cases "executeTool ev ''submit_order'' a w")
  with h have "sends_only [''createSession''] w w'" by (simp add: submit_gated_tool)
  then show "\<forall>q \<in> set (new_requests w (snd (executeTool ev ''submit_order'' a w))).
          action q \<noteq> ''submitOrder''"
    using run by (auto dest: sends_only_new)
next
  assume "\<not> truthy (authToken (state w))" and "ensureSession ev w = (Inr cid, w1)"
  then show "executeTool ev ''submit_order'' a w = (Inr authResponse, w1)"
    by (simp add: submit_gated executeTool_Inr)
next
  assume "ensureSession ev w = (Inl e, w1)"
  then show "executeToolInternal ev ''submit_order'' a w = (Inl e, w1)" by (rule session_first)
next
  show "path_get authResponse [''structuredContent'', ''error'']
          = Inr (JStr ''authentication_required'')"
    by (simp add: authResponse_def)
next
  show "path_get authResponse [''_meta'', ''openai/outputTemplate''] = Inr (JStr LOGIN_WIDGET_URI)"
    by (simp add: authResponse_def)
next
  assume "truthy (authToken (state w)) \<and> ensureSession ev w = (Inr cid, w1)
      \<and> z_object_parse submitOrderSchema a = Inr p
      \<and> submitOrder ev cid (authToken (state w)) (field p ''paymentAccountId'') w1
           = (Inr result, w2)
      \<and> getProp result ''success'' = Inr s \<and> \<not> truthy s
      \<and> getProp result ''error'' = Inr err"
  then show d: "executeToolInternal ev ''submit_order'' a w =
           (Inl (Error (toString (js_or err (JStr ''Order submission failed'')))), w2)"
    by (simp add: submit_declined)
  assume "\<not> str_includes (toString (js_or err (JStr ''Order submission failed'')))
                expiry_marker"
  then show "executeTool ev ''submit_order'' a w =
             (Inl (Error (toString (js_or err (JStr ''Order submission failed'')))), w2)"
    by (simp add: executeTool_Inl [OF d] message_def)
qed

text \<open>
  The claim as first stated promised the \<open>authentication_required\<close> result for every
  invocation without a token.  With no session id stored and the backend unreachable,
  \<open>ensureSession\<close> throws before the token is looked at, and so does the executor.
\<close>

theorem submit_order_counterexample:
  "\<not> truthy (authToken (state fresh_world))
   \<and> fst (executeTool (env_of backend_down) ''submit_order'' (JObj []) fresh_world)
       = Inl (Error ''API Error (503): Service Unavailable'')"
  by code_simp

text \<open>
  The theorem at work: a first call on a fresh world against a working backend, and an
  authenticated call whose payment the backend declines.
\<close>

theorem submit_order_gate_witness:
  "\<not> truthy (authToken (state fresh_world))
   \<and> ensureSession (env_of backend_up) fresh_world =
       (Inr (JStr ''chat-1''),
        setChatId (JStr ''chat-1'')
          (fresh_world\<lparr>sent := [guest_session_request (env_of backend_up)]\<rparr>))
   \<and> executeTool (env_of backend_up) ''submit_order'' (JObj []) fresh_world =
       (Inr authResponse,
        setChatId (JStr ''chat-1'')
          (fresh_world\<lparr>sent := [guest_session_request (env_of backend_up)]\<rparr>))
   \<and> list_all (\<lambda>q. action q \<noteq> ''submitOrder'')
        (new_requests fresh_world
           (snd (executeTool (env_of backend_up) ''submit_order'' (JObj []) fresh_world)))
   \<and> truthy (authToken (state authed_world))
   \<and> ensureSession (env_of backend_up) authed_world = (Inr (JStr ''chat-1''), authed_world)
   \<and> z_object_parse submitOrderSchema (JObj []) = Inr [(''paymentAccountId'', JUndefined)]
   \<and> submitOrder (env_of backend_up) (JStr ''chat-1'') (JStr ''secret'') JUndefined authed_world
       = (Inr declined,
          authed_world\<lparr>sent := [api_request (env_of backend_up) ''submitOrder''
             [JStr ''chat-1'', JStr ''secret'', JNull, JStr ''app'', JUndefined] JUndefined]\<rparr>)
   \<and> getProp declined ''success'' = Inr (JBool False)
   \<and> getProp declined ''error'' = Inr (JStr ''Payment declined'')
   \<and> executeToolInternal (env_of backend_up) ''submit_order'' (JObj []) authed_world =
       (Inl (Error ''Payment declined''),
          authed_world\<lparr>sent := [api_request (env_of backend_up) ''submitOrder''
             [JStr ''chat-1'', JStr ''secret'', JNull, JStr ''app'', JUndefined] JUndefined]\<rparr>)
   \<and> \<not> str_includes ''Payment declined'' expiry_marker
   \<and> executeTool (env_of backend_up) ''submit_order'' (JObj []) authed_world =
       (Inl (Error ''Payment declined''),
          authed_world\<lparr>sent := [api_request (env_of backend_up) ''submitOrder''
             [JStr ''chat-1'', JStr ''secret'', JNull, JStr ''app'', JUndefined] JUndefined]\<rparr>)"
proof -
  let ?E = "env_of backend_up"
  let ?w1 = "setChatId (JStr ''chat-1'') (fresh_world\<lparr>sent := [guest_session_request ?E]\<rparr>)"
  let ?w2 = "authed_world\<lparr>sent := [api_request ?E ''submitOrder''
             [JStr ''chat-1'', JStr ''secret'', JNull, JStr ''app'', JUndefined] JUndefined]\<rparr>"
  have a1: "\<not> truthy (authToken (state fresh_world))" by code_simp
  have a2: "ensureSession ?E fresh_world = (Inr (JStr ''chat-1''), ?w1)" by code_simp
  have b1: "truthy (authToken (state authed_world))" by code_simp
  have b2: "ensureSession ?E authed_world = (Inr (JStr ''chat-1''), authed_world)" by code_simp
  have b3: "z_object_parse submitOrderSchema (JObj []) = Inr [(''paymentAccountId'', JUndefined)]"
    by code_simp
  have b4: "submitOrder ?E (JStr ''chat-1'') (authToken (state authed_world))
              (field [(''paymentAccountId'', JUndefined)] ''paymentAccountId'') authed_world
            = (Inr declined, ?w2)" by code_simp
  have b4s: "submitOrder ?E (JStr ''chat-1'') (JStr ''secret'') JUndefined authed_world
            = (Inr declined, ?w2)" by code_simp
  have b5: "getProp declined ''success'' = Inr (JBool False)" by code_simp
  have b6: "getProp declined ''error'' = Inr (JStr ''Payment declined'')" by code_simp
  note A = submit_order_gate [of fresh_world ?E "JObj []" "JStr ''chat-1''" ?w1]
  note B = submit_order_gate [of authed_world ?E "JObj []" "JStr ''chat-1''" authed_world _
              "[(''paymentAccountId'', JUndefined)]" declined ?w2 "JBool False"
              "JStr ''Payment declined''"]
  have c1: "executeTool ?E ''submit_order'' (JObj []) fresh_world = (Inr authResponse, ?w1)"
    using A a1 a2 by blast
  have c2: "list_all (\<lambda>q. action q \<noteq> ''submitOrder'')
        (new_requests fresh_world (snd (executeTool ?E ''submit_order'' (JObj []) fresh_world)))"
    using A a1 unfolding list_all_iff by blast
  have c3: "executeToolInternal ?E ''submit_order'' (JObj []) authed_world =
       (Inl (Error ''Payment declined''), ?w2)"
    using B b1 b2 b3 b4 b5 b6 by (simp add: js_or_def)
  have b7: "\<not> str_includes ''Payment declined'' expiry_marker" by code_simp
  have c4: "executeTool ?E ''submit_order'' (JObj []) authed_world =
       (Inl (Error ''Payment declined''), ?w2)"
    using B b1 b2 b3 b4 b5 b6 b7 by (simp add: js_or_def)
  from a1 a2 c1 c2 b1 b2 b3 b4s b5 b6 c3 b7 c4 show ?thesis by (intro conjI)
qed

subsection \<open>C2: one retry when the session has expired\<close>

text \<open>
  Claim C2.  Let the dispatch of a tool invocation fail with error \<open>e\<close>.  If the
  message of \<open>e\<close> contains \<open>Call context not found\<close>, the executor stores the empty
  session id and runs the whole dispatch once more, from \<open>ensureSession\<close>; there the
  stored id is empty, so the first request of the retry asks the backend for a guest
  session, and when the backend hands out the id \<open>cid\<close> the tool is dispatched with
  that fresh id.  Whatever the retry returns or throws is the outcome: an error of the
  retry is thrown as it is, also when it carries the marker again.  If the message of
  \<open>e\<close> does not contain the marker, \<open>e\<close> is thrown as it is and nothing is retried.
\<close>

theorem expiry_retry_once:
  assumes "executeToolInternal ev name a w = (Inl e, w1)"
  shows "(str_includes (message ev e) expiry_marker \<longrightarrow>
            executeTool ev name a w = executeToolInternal ev name a (setChatId (JStr []) w1)
          \<and> chatId (state (setChatId (JStr []) w1)) = JStr []
          \<and> sent (snd (ensureSession ev (setChatId (JStr []) w1)))
              = sent w1 @ [guest_session_request ev]
          \<and> (backend ev (sent w1 @ [guest_session_request ev]) = HttpOk res
               \<and> getProp res ''chatId'' = Inr cid \<longrightarrow>
               executeTool ev name a w =
                 dispatch ev name cid (authToken (state w1)) a
                   (setChatId cid
                      ((setChatId (JStr []) w1)\<lparr>sent := sent w1 @ [guest_session_request ev]\<rparr>)))
          \<and> (executeToolInternal ev name a (setChatId (JStr []) w1) = (Inl e2, w2) \<longrightarrow>
               executeTool ev name a w = (Inl e2, w2)))
       \<and> (\<not> str_includes (message ev e) expiry_marker \<longrightarrow>
            executeTool ev name a w = (Inl e, w1))"
proof (intro conjI impI)
  assume m: "str_includes (message ev e) expiry_marker"
  let ?w = "setChatId (JStr []) w1"
  have cleared: "\<not> truthy (chatId (state ?w))" by simp
  show retry: "executeTool ev name a w = executeToolInternal ev name a ?w"
    using assms m by (simp add: executeTool_Inl)
  show "chatId (state ?w) = JStr []" by simp
  show "sent (snd (ensureSession ev ?w)) = sent w1 @ [guest_session_request ev]"
    by (simp add: ensureSession_new [OF cleared] Let_def split: response.splits sum.splits)
  {
    assume "backend ev (sent w1 @ [guest_session_request ev]) = HttpOk res
               \<and> getProp res ''chatId'' = Inr cid"
    then have "ensureSession ev ?w =
        (Inr cid, setChatId cid (?w\<lparr>sent := sent w1 @ [guest_session_request ev]\<rparr>))"
      using ensureSession_created [OF cleared, of ev res cid] by simp
    then show "executeTool ev name a w =
                 dispatch ev name cid (authToken (state w1)) a
                   (setChatId cid (?w\<lparr>sent := sent w1 @ [guest_session_request ev]\<rparr>))"
      by (simp add: retry executeToolInternal_alt)
  }
  {
    assume "executeToolInternal ev name a ?w = (Inl e2, w2)"
    then show "executeTool ev name a w = (Inl e2, w2)" by (simp add: retry)
  }
next
  assume "\<not> str_includes (message ev e) expiry_marker"
  with assms show "executeTool ev name a w = (Inl e, w1)" by (simp add: executeTool_Inl)
qed

text \<open>
  The theorem at work on \<open>view_basket\<close> with a stored session id the backend has
  forgotten: against a backend that accepts the new session the call succeeds with
  session \<open>chat-2\<close>; against a backend that forgets every session the second failure
  is final, after exactly one new session; against an unreachable backend the error
  carries no marker and is thrown at once.
\<close>

theorem expiry_retry_once_witness:
  "executeToolInternal (env_of backend_forgot) ''view_basket'' (JObj []) (session_world ''stale'')
     = (Inl (Error ''API Error (400): Call context not found''),
        (session_world ''stale'')\<lparr>sent := [\<lparr>action = ''getBasket'', args = [JStr ''stale''],
                                               authorization = None\<rparr>]\<rparr>)
   \<and> str_includes (message (env_of backend_forgot)
                      (Error ''API Error (400): Call context not found'')) expiry_marker
   \<and> backend (env_of backend_forgot)
        ([\<lparr>action = ''getBasket'', args = [JStr ''stale''], authorization = None\<rparr>]
         @ [guest_session_request (env_of backend_forgot)])
       = HttpOk (JObj [(''chatId'', JStr ''chat-2'')])
   \<and> getProp (JObj [(''chatId'', JStr ''chat-2'')]) ''chatId'' = Inr (JStr ''chat-2'')
   \<and> executeTool (env_of backend_forgot) ''view_basket'' (JObj []) (session_world ''stale'')
     = dispatch (env_of backend_forgot) ''view_basket'' (JStr ''chat-2'') JNull (JObj [])
         (setChatId (JStr ''chat-2'')
            ((setChatId (JStr [])
                ((session_world ''stale'')\<lparr>sent := [\<lparr>action = ''getBasket'',
                    args = [JStr ''stale''], authorization = None\<rparr>]\<rparr>))
             \<lparr>sent := [\<lparr>action = ''getBasket'', args = [JStr ''stale''], authorization = None\<rparr>,
                       guest_session_request (env_of backend_forgot)]\<rparr>))
   \<and> \<not> isl (fst (executeTool (env_of backend_forgot) ''view_basket'' (JObj [])
                    (session_world ''stale'')))
   \<and> chatId (state (snd (executeTool (env_of backend_forgot) ''view_basket'' (JObj [])
                            (session_world ''stale'')))) = JStr ''chat-2''
   \<and> sent (snd (executeTool (env_of backend_forgot) ''view_basket'' (JObj [])
                   (session_world ''stale'')))
     = [\<lparr>action = ''getBasket'', args = [JStr ''stale''], authorization = None\<rparr>,
        guest_session_request (env_of backend_forgot),
        \<lparr>action = ''getBasket'', args = [JStr ''chat-2''], authorization = None\<rparr>]
   \<and> executeToolInternal (env_of backend_amnesic) ''view_basket'' (JObj [])
        (session_world ''stale'')
     = (Inl (Error ''API Error (400): Call context not found''),
        (session_world ''stale'')\<lparr>sent := [\<lparr>action = ''getBasket'', args = [JStr ''stale''],
                                               authorization = None\<rparr>]\<rparr>)
   \<and> fst (executeTool (env_of backend_amnesic) ''view_basket'' (JObj []) (session_world ''stale''))
     = Inl (Error ''API Error (400): Call context not found'')
   \<and> map action (sent (snd (executeTool (env_of backend_amnesic) ''view_basket'' (JObj [])
                               (session_world ''stale''))))
     = [''getBasket'', ''createSession'', ''getBasket'']
   \<and> executeToolInternal (env_of backend_down) ''view_basket'' (JObj []) (session_world ''stale'')
     = (Inl (Error ''API Error (503): Service Unavailable''),
        (session_world ''stale'')\<lparr>sent := [\<lparr>action = ''getBasket'', args = [JStr ''stale''],
                                               authorization = None\<rparr>]\<rparr>)
   \<and> \<not> str_includes (message (env_of backend_down)
                        (Error ''API Error (503): Service Unavailable'')) expiry_marker
   \<and> executeTool (env_of backend_down) ''view_basket'' (JObj []) (session_world ''stale'')
     = (Inl (Error ''API Error (503): Service Unavailable''),
        (session_world ''stale'')\<lparr>sent := [\<lparr>action = ''getBasket'', args = [JStr ''stale''],
                                               authorization = None\<rparr>]\<rparr>)"
proof -
  let ?F = "env_of backend_forgot" and ?A = "env_of backend_amnesic" and ?D = "env_of backend_down"
  let ?w = "session_world ''stale''"
  let ?q = "\<lparr>action = ''getBasket'', args = [JStr ''stale''], authorization = None\<rparr>"
  let ?w1 = "?w\<lparr>sent := [?q]\<rparr>"
  let ?e = "Error ''API Error (400): Call context not found''"
  let ?d = "Error ''API Error (503): Service Unavailable''"
  let ?res = "JObj [(''chatId'', JStr ''chat-2'')]"
  have f1: "executeToolInternal ?F ''view_basket'' (JObj []) ?w = (Inl ?e, ?w1)" by code_simp
  have f2: "str_includes (message ?F ?e) expiry_marker" by code_simp
  have f3: "backend ?F ([?q] @ [guest_session_request ?F]) = HttpOk ?res" by code_simp
  have f4: "getProp ?res ''chatId'' = Inr (JStr ''chat-2'')" by simp
  have s1: "sent ?w1 = [?q]" by simp
  have t1: "authToken (state ?w) = JNull" by code_simp
  note F = expiry_retry_once [OF f1, of ?res "JStr ''chat-2''"]
  have f5: "executeTool ?F ''view_basket'' (JObj []) ?w
     = dispatch ?F ''view_basket'' (JStr ''chat-2'') JNull (JObj [])
         (setChatId (JStr ''chat-2'')
            ((setChatId (JStr []) ?w1)\<lparr>sent := [?q, guest_session_request ?F]\<rparr>))"
  proof -
    have b: "backend ?F (sent ?w1 @ [guest_session_request ?F]) = HttpOk ?res"
      using f3 by simp
    have "executeTool ?F ''view_basket'' (JObj []) ?w
       = dispatch ?F ''view_basket'' (JStr ''chat-2'') (authToken (state ?w1)) (JObj [])
           (setChatId (JStr ''chat-2'')
              ((setChatId (JStr []) ?w1)\<lparr>sent := sent ?w1 @ [guest_session_request ?F]\<rparr>))"
      using F f2 b f4 by blast
    then show ?thesis by (simp add: t1)
  qed
  have f6: "\<not> isl (fst (executeTool ?F ''view_basket'' (JObj []) ?w))" by code_simp
  have f7: "chatId (state (snd (executeTool ?F ''view_basket'' (JObj []) ?w))) = JStr ''chat-2''"
    by code_simp
  have f8: "sent (snd (executeTool ?F ''view_basket'' (JObj []) ?w))
     = [?q, guest_session_request ?F,
        \<lparr>action = ''getBasket'', args = [JStr ''chat-2''], authorization = None\<rparr>]"
    by code_simp
  have a1: "executeToolInternal ?A ''view_basket'' (JObj []) ?w = (Inl ?e, ?w1)" by code_simp
  have a2: "str_includes (message ?A ?e) expiry_marker" by code_simp
  let ?r2 = "executeToolInternal ?A ''view_basket'' (JObj []) (setChatId (JStr []) ?w1)"
  have "fst ?r2 = Inl ?e" by code_simp
  then have a3: "?r2 = (Inl ?e, snd ?r2)" by (simp add: prod_eq_iff)
  have "executeTool ?A ''view_basket'' (JObj []) ?w = (Inl ?e, snd ?r2)"
    using expiry_retry_once [OF a1, of _ _ ?e "snd ?r2"] a2 a3 by blast
  then have a4: "fst (executeTool ?A ''view_basket'' (JObj []) ?w) = Inl ?e" by simp
  have a5: "map action (sent (snd (executeTool ?A ''view_basket'' (JObj []) ?w)))
     = [''getBasket'', ''createSession'', ''getBasket'']" by code_simp
  have d1: "executeToolInternal ?D ''view_basket'' (JObj []) ?w = (Inl ?d, ?w1)" by code_simp
  have d2: "\<not> str_includes (message ?D ?d) expiry_marker" by code_simp
  have d3: "executeTool ?D ''view_basket'' (JObj []) ?w = (Inl ?d, ?w1)"
    using expiry_retry_once [OF d1] d2 by blast
  from f1 f2 f3 f4 f5 f6 f7 f8 a1 a4 a5 d1 d2 d3 show ?thesis by (intro conjI)
qed

subsection \<open>C3: add_to_basket validates against the last search\<close>

text \<open>
  Claim C3, as amended.  Take an \<open>add_to_basket\<close> invocation whose arguments pass the
  schema.  If the last-search cache is a non-empty sequence of items (each an object,
  so that its \<open>menuItemId\<close> can be read) and the requested id is not among their
  ids, then the call fails, and no \<open>updateBasket\<close> request is sent, at the first
  attempt or at a retry; and once \<open>ensureSession\<close> has yielded a session id, the
  error of the dispatch is the validation error whose message lists the cached ids,
  joined by a comma and a space, and the executor throws it on (unless an id in the
  message spells the expiry marker).  If the cache is the empty sequence, no id is checked:
  once \<open>ensureSession\<close> has yielded a session id, the request that adds the item is
  sent to the backend, whatever the id.
\<close>

theorem add_to_basket_validation:
  "(searchResults (state w) = JArr items \<and> items \<noteq> []
      \<and> z_object_parse addToBasketSchema a = Inr p
      \<and> map_prop items ''menuItemId'' = Inr ids
      \<and> field p ''menuItemId'' \<notin> set ids \<longrightarrow>
        isl (fst (executeTool ev ''add_to_basket'' a w))
      \<and> (\<forall>q \<in> set (new_requests w (snd (executeTool ev ''add_to_basket'' a w))).
            action q \<noteq> ''updateBasket'')
      \<and> (ensureSession ev w = (Inr cid, w1) \<longrightarrow>
            executeToolInternal ev ''add_to_basket'' a w =
              (Inl (Error (''Invalid menuItemId. Valid IDs: '' @ join ids '', '')), w1)
          \<and> (\<not> str_includes (''Invalid menuItemId. Valid IDs: '' @ join ids '', '')
                    expiry_marker \<longrightarrow>
               executeTool ev ''add_to_basket'' a w =
                 (Inl (Error (''Invalid menuItemId. Valid IDs: '' @ join ids '', '')), w1))))
   \<and> (searchResults (state w) = JArr []
      \<and> z_object_parse addToBasketSchema a = Inr p
      \<and> ensureSession ev w = (Inr cid, w1) \<longrightarrow>
        add_request ev cid (authToken (state w)) p
          \<in> set (new_requests w (snd (executeTool ev ''add_to_basket'' a w))))"
proof (intro conjI impI)
  assume h: "searchResults (state w) = JArr items \<and> items \<noteq> []
      \<and> z_object_parse addToBasketSchema a = Inr p
      \<and> map_prop items ''menuItemId'' = Inr ids
      \<and> field p ''menuItemId'' \<notin> set ids"
  then have t: "isl (fst (executeTool ev ''add_to_basket'' a w))
       \<and> sends_only [''createSession''] w (snd (executeTool ev ''add_to_basket'' a w))"
    using add_rejected_tool [of w items a p ids ev] by blast
  then show "isl (fst (executeTool ev ''add_to_basket'' a w))" ..
  from t show "\<forall>q \<in> set (new_requests w (snd (executeTool ev ''add_to_basket'' a w))).
            action q \<noteq> ''updateBasket''"
    by (auto dest: sends_only_new)
  assume "ensureSession ev w = (Inr cid, w1)"
  with h add_rejected_internal [of w items a p ids ev cid w1]
  show d: "executeToolInternal ev ''add_to_basket'' a w =
              (Inl (Error (''Invalid menuItemId. Valid IDs: '' @ join ids '', '')), w1)"
    by simp
  assume "\<not> str_includes (''Invalid menuItemId. Valid IDs: '' @ join ids '', '')
                    expiry_marker"
  then show "executeTool ev ''add_to_basket'' a w =
                 (Inl (Error (''Invalid menuItemId. Valid IDs: '' @ join ids '', '')), w1)"
    by (simp add: executeTool_Inl [OF d] message_def)
next
  assume "searchResults (state w) = JArr []
      \<and> z_object_parse addToBasketSchema a = Inr p
      \<and> ensureSession ev w = (Inr cid, w1)"
  then show "add_request ev cid (authToken (state w)) p
          \<in> set (new_requests w (snd (executeTool ev ''add_to_basket'' a w)))"
    using add_forwarded [of a p w ev cid w1] by blast
qed

text \<open>
  The claim as first stated promised the validation error whenever the cache is
  non-empty and the id is not in it.  Search the menu, then let the session expire and
  the backend become unreachable (\<open>view_basket\<close> clears the stored session id and
  fails): the cache still holds the ids 1, 2 and 3, and \<open>add_to_basket\<close> with id 4
  now fails in \<open>ensureSession\<close>, with the error of the backend, before any argument is
  looked at.
\<close>

theorem add_to_basket_counterexample:
  "searchResults (state (run_ops (env_of backend_outage)
        [ToolCall ''search_menu'' (JObj [(''query'', JStr ''pizza'')]),
         ToolCall ''view_basket'' (JObj [])] fresh_world))
     = JArr pizza_items
   \<and> map_prop pizza_items ''menuItemId'' = Inr [JNum 1, JNum 2, JNum 3]
   \<and> JNum 4 \<notin> set [JNum 1, JNum 2, JNum 3]
   \<and> fst (executeTool (env_of backend_outage) ''add_to_basket'' (JObj [(''menuItemId'', JNum 4)])
        (run_ops (env_of backend_outage)
           [ToolCall ''search_menu'' (JObj [(''query'', JStr ''pizza'')]),
            ToolCall ''view_basket'' (JObj [])] fresh_world))
     = Inl (Error ''API Error (503): Service Unavailable'')"
  by code_simp

text \<open>
  The theorem at work: after a search that found the ids 1, 2 and 3, id 4 is rejected
  with the message that lists them; before any search, id 42 goes to the backend.
\<close>

theorem add_to_basket_validation_witness:
  "searchResults (state searched_world) = JArr pizza_items
   \<and> pizza_items \<noteq> []
   \<and> z_object_parse addToBasketSchema (JObj [(''menuItemId'', JNum 4)])
       = Inr [(''menuItemId'', JNum 4), (''quantity'', JUndefined),
              (''menuItemOptionSetItems'', JUndefined)]
   \<and> map_prop pizza_items ''menuItemId'' = Inr [JNum 1, JNum 2, JNum 3]
   \<and> JNum 4 \<notin> set [JNum 1, JNum 2, JNum 3]
   \<and> ensureSession (env_of backend_up) searched_world = (Inr (JStr ''chat-1''), searched_world)
   \<and> isl (fst (executeTool (env_of backend_up) ''add_to_basket''
                 (JObj [(''menuItemId'', JNum 4)]) searched_world))
   \<and> list_all (\<lambda>q. action q \<noteq> ''updateBasket'')
        (new_requests searched_world
           (snd (executeTool (env_of backend_up) ''add_to_basket''
                   (JObj [(''menuItemId'', JNum 4)]) searched_world)))
   \<and> executeToolInternal (env_of backend_up) ''add_to_basket''
        (JObj [(''menuItemId'', JNum 4)]) searched_world
       = (Inl (Error ''Invalid menuItemId. Valid IDs: 1, 2, 3''), searched_world)
   \<and> \<not> str_includes ''Invalid menuItemId. Valid IDs: 1, 2, 3'' expiry_marker
   \<and> executeTool (env_of backend_up) ''add_to_basket''
        (JObj [(''menuItemId'', JNum 4)]) searched_world
       = (Inl (Error ''Invalid menuItemId. Valid IDs: 1, 2, 3''), searched_world)
   \<and> searchResults (state (session_world ''chat-1'')) = JArr []
   \<and> z_object_parse addToBasketSchema (JObj [(''menuItemId'', JNum 42)])
       = Inr [(''menuItemId'', JNum 42), (''quantity'', JUndefined),
              (''menuItemOptionSetItems'', JUndefined)]
   \<and> ensureSession (env_of backend_up) (session_world ''chat-1'')
       = (Inr (JStr ''chat-1''), session_world ''chat-1'')
   \<and> \<lparr>action = ''updateBasket'',
       args = [JStr ''chat-1'',
               JObj [(''addMenuItems'',
                      JArr [JObj [(''menuItemId'', JNum 42), (''quantity'', JNum 1)]])]],
       authorization = None\<rparr>
       \<in> set (new_requests (session_world ''chat-1'')
                 (snd (executeTool (env_of backend_up) ''add_to_basket''
                         (JObj [(''menuItemId'', JNum 42)]) (session_world ''chat-1''))))"
proof -
  let ?U = "env_of backend_up"
  let ?a4 = "JObj [(''menuItemId'', JNum 4)]" and ?a42 = "JObj [(''menuItemId'', JNum 42)]"
  let ?p4 = "[(''menuItemId'', JNum 4), (''quantity'', JUndefined),
              (''menuItemOptionSetItems'', JUndefined)]"
  let ?p42 = "[(''menuItemId'', JNum 42), (''quantity'', JUndefined),
              (''menuItemOptionSetItems'', JUndefined)]"
  let ?ids = "[JNum 1, JNum 2, JNum 3]"
  let ?s = "session_world ''chat-1''"
  have 1: "searchResults (state searched_world) = JArr pizza_items" by code_simp
  have 2: "pizza_items \<noteq> []" by code_simp
  have 3: "z_object_parse addToBasketSchema ?a4 = Inr ?p4" by code_simp
  have 4: "map_prop pizza_items ''menuItemId'' = Inr ?ids" by code_simp
  have 5: "JNum 4 \<notin> set ?ids" by simp
  have f5: "field ?p4 ''menuItemId'' \<notin> set ?ids" by code_simp
  have 6: "ensureSession ?U searched_world = (Inr (JStr ''chat-1''), searched_world)"
    by code_simp
  have j: "''Invalid menuItemId. Valid IDs: '' @ join ?ids '', ''
             = ''Invalid menuItemId. Valid IDs: 1, 2, 3''" by code_simp
  note A = add_to_basket_validation [of searched_world pizza_items ?a4 ?p4 ?ids ?U
             "JStr ''chat-1''" searched_world]
  have 7: "isl (fst (executeTool ?U ''add_to_basket'' ?a4 searched_world))"
    using A 1 2 3 4 f5 by blast
  have 8: "list_all (\<lambda>q. action q \<noteq> ''updateBasket'')
        (new_requests searched_world (snd (executeTool ?U ''add_to_basket'' ?a4 searched_world)))"
    using A 1 2 3 4 f5 unfolding list_all_iff by blast
  have "executeToolInternal ?U ''add_to_basket'' ?a4 searched_world
       = (Inl (Error (''Invalid menuItemId. Valid IDs: '' @ join ?ids '', '')), searched_world)"
    using A 1 2 3 4 f5 6 by blast
  then have 9: "executeToolInternal ?U ''add_to_basket'' ?a4 searched_world
       = (Inl (Error ''Invalid menuItemId. Valid IDs: 1, 2, 3''), searched_world)"
    unfolding j .
  have m: "\<not> str_includes ''Invalid menuItemId. Valid IDs: 1, 2, 3'' expiry_marker"
    by code_simp
  have "\<not> str_includes (''Invalid menuItemId. Valid IDs: '' @ join ?ids '', '') expiry_marker"
    unfolding j by (rule m)
  then have "executeTool ?U ''add_to_basket'' ?a4 searched_world
       = (Inl (Error (''Invalid menuItemId. Valid IDs: '' @ join ?ids '', '')), searched_world)"
    using A 1 2 3 4 f5 6 by blast
  then have t9: "executeTool ?U ''add_to_basket'' ?a4 searched_world
       = (Inl (Error ''Invalid menuItemId. Valid IDs: 1, 2, 3''), searched_world)"
    unfolding j .
  have 10: "searchResults (state ?s) = JArr []" by code_simp
  have 11: "z_object_parse addToBasketSchema ?a42 = Inr ?p42" by code_simp
  have 12: "ensureSession ?U ?s = (Inr (JStr ''chat-1''), ?s)" by code_simp
  have r: "add_request ?U (JStr ''chat-1'') (authToken (state ?s)) ?p42
      = \<lparr>action = ''updateBasket'',
         args = [JStr ''chat-1'',
                 JObj [(''addMenuItems'',
                        JArr [JObj [(''menuItemId'', JNum 42), (''quantity'', JNum 1)]])]],
         authorization = None\<rparr>" by code_simp
  have "add_request ?U (JStr ''chat-1'') (authToken (state ?s)) ?p42
          \<in> set (new_requests ?s (snd (executeTool ?U ''add_to_basket'' ?a42 ?s)))"
    using add_to_basket_validation [of ?s _ ?a42 ?p42 _ ?U "JStr ''chat-1''" ?s] 10 11 12
    by blast
  then have 13: "\<lparr>action = ''updateBasket'',
       args = [JStr ''chat-1'',
               JObj [(''addMenuItems'',
                      JArr [JObj [(''menuItemId'', JNum 42), (''quantity'', JNum 1)]])]],
       authorization = None\<rparr>
       \<in> set (new_requests ?s (snd (executeTool ?U ''add_to_basket'' ?a42 ?s)))"
    unfolding r .
  from 1 2 3 4 5 6 7 8 9 m t9 10 11 12 13 show ?thesis by (intro conjI)
qed

subsection \<open>C4: authentication is atomic\<close>

text \<open>
  Claim C4.  Auth token and phone number are set together or unset together in every
  state reached from the default-empty state by tool calls and by the setters of the
  store, and each of these operations preserves that.  A \<open>verify_otp\<close> invocation
  that throws leaves token and phone number as they were, so \<open>isAuthenticated()\<close>
  keeps its value.  Once \<open>ensureSession\<close> has yielded a session id and the arguments
  have passed the schema: a backend response whose \<open>success\<close> or \<open>token\<close> is falsy
  makes the dispatch throw, with token and phone number untouched (and the executor
  throws the error on, unless its message carries the expiry marker); a response with a
  truthy \<open>success\<close> and \<open>token\<close> makes the call return and leave the world that one
  \<open>setAuthToken\<close> step gives, in which the token is the one of the response, the phone
  number (a string) is the one of the arguments, and \<open>isAuthenticated()\<close> is true.
  \<open>clearAuth\<close> unsets both.
\<close>

theorem authentication_is_atomic:
  "(state w0 = initial_state \<longrightarrow> auth_atomic (state (run_ops ev ops w0)))
   \<and> (auth_atomic (state w) \<longrightarrow> auth_atomic (state (apply_op ev x w)))
   \<and> (executeTool ev ''verify_otp'' a w = (Inl e, w') \<longrightarrow>
        auth_kept w w' \<and> isAuthenticated w' = isAuthenticated w)
   \<and> (ensureSession ev w = (Inr cid, w1)
      \<and> z_object_parse verifyOtpSchema a = Inr p
      \<and> verifyOTP ev (field p ''phoneNumber'') (field p ''code'') cid w1 = (Inr result, w2)
      \<and> getProp result ''success'' = Inr s
      \<and> getProp result ''token'' = Inr t
      \<and> getProp result ''error'' = Inr err \<longrightarrow>
        (\<not> truthy s \<or> \<not> truthy t \<longrightarrow>
           executeToolInternal ev ''verify_otp'' a w =
             (Inl (Error (toString (js_or err (JStr ''OTP verification failed'')))), w2)
         \<and> auth_kept w w2
         \<and> (\<not> str_includes (toString (js_or err (JStr ''OTP verification failed'')))
                   expiry_marker \<longrightarrow>
              executeTool ev ''verify_otp'' a w =
                (Inl (Error (toString (js_or err (JStr ''OTP verification failed'')))), w2)))
      \<and> (truthy s \<and> truthy t \<longrightarrow>
           \<not> isl (fst (executeTool ev ''verify_otp'' a w))
         \<and> snd (executeTool ev ''verify_otp'' a w) = setAuthToken t (field p ''phoneNumber'') w2
         \<and> authToken (state (snd (executeTool ev ''verify_otp'' a w))) = t
         \<and> phoneNumber (state (snd (executeTool ev ''verify_otp'' a w))) = field p ''phoneNumber''
         \<and> is_set (field p ''phoneNumber'')
         \<and> isAuthenticated (snd (executeTool ev ''verify_otp'' a w))))
   \<and> authToken (state (clearAuth w)) = JNull
   \<and> phoneNumber (state (clearAuth w)) = JNull
   \<and> \<not> isAuthenticated (clearAuth w)"
proof (intro conjI impI)
  assume "state w0 = initial_state"
  then have "auth_atomic (state w0)" by (simp add: initial_atomic)
  then show "auth_atomic (state (run_ops ev ops w0))" by (rule run_ops_atomic)
next
  assume "auth_atomic (state w)"
  then show "auth_atomic (state (apply_op ev x w))" by (rule apply_op_atomic)
next
  assume "executeTool ev ''verify_otp'' a w = (Inl e, w')"
  from tool_auth [OF this] show k: "auth_kept w w'" by simp
  then show "isAuthenticated w' = isAuthenticated w"
    by (simp add: isAuthenticated_def auth_kept_def)
next
  assume h: "ensureSession ev w = (Inr cid, w1)
      \<and> z_object_parse verifyOtpSchema a = Inr p
      \<and> verifyOTP ev (field p ''phoneNumber'') (field p ''code'') cid w1 = (Inr result, w2)
      \<and> getProp result ''success'' = Inr s
      \<and> getProp result ''token'' = Inr t
      \<and> getProp result ''error'' = Inr err"
  then have run: "executeToolInternal ev ''verify_otp'' a w =
     (if \<not> truthy s \<or> \<not> truthy t
      then (Inl (Error (toString (js_or err (JStr ''OTP verification failed'')))), w2)
      else (Inr (JObj
         [(''content'', text_content (JStr ''Authentication successful!'')),
          (''structuredContent'', JObj
             [(''authenticated'', JBool True), (''phoneNumber'', field p ''phoneNumber'')]),
          (''_meta'', JObj [(''openai/outputTemplate'', JStr LOGIN_WIDGET_URI)])]),
          setAuthToken t (field p ''phoneNumber'') w2))"
    using verify_internal_run [of ev w cid w1 a p result w2 s t err] by blast
  {
    assume f: "\<not> truthy s \<or> \<not> truthy t"
    with run show d: "executeToolInternal ev ''verify_otp'' a w =
             (Inl (Error (toString (js_or err (JStr ''OTP verification failed'')))), w2)"
      by simp
    {
      assume "\<not> str_includes (toString (js_or err (JStr ''OTP verification failed'')))
                   expiry_marker"
      then show "executeTool ev ''verify_otp'' a w =
                (Inl (Error (toString (js_or err (JStr ''OTP verification failed'')))), w2)"
        by (simp add: executeTool_Inl [OF d] message_def)
    }
    from h have "auth_kept w w1"
      using keepsD [OF ensureSession_same_but_chatId] same_but_chatId_auth_kept by blast
    moreover from h have "state w2 = state w1"
      unfolding verifyOTP_def using callApi_state by blast
    ultimately show "auth_kept w w2" by (simp add: auth_kept_def)
  }
  {
    assume ok: "truthy s \<and> truthy t"
    with run have "executeToolInternal ev ''verify_otp'' a w =
       (Inr (JObj
         [(''content'', text_content (JStr ''Authentication successful!'')),
          (''structuredContent'', JObj
             [(''authenticated'', JBool True), (''phoneNumber'', field p ''phoneNumber'')]),
          (''_meta'', JObj [(''openai/outputTemplate'', JStr LOGIN_WIDGET_URI)])]),
          setAuthToken t (field p ''phoneNumber'') w2)"
      by simp
    then have tool: "executeTool ev ''verify_otp'' a w =
       (Inr (JObj
         [(''content'', text_content (JStr ''Authentication successful!'')),
          (''structuredContent'', JObj
             [(''authenticated'', JBool True), (''phoneNumber'', field p ''phoneNumber'')]),
          (''_meta'', JObj [(''openai/outputTemplate'', JStr LOGIN_WIDGET_URI)])]),
          setAuthToken t (field p ''phoneNumber'') w2)"
      by (rule executeTool_Inr)
    show "\<not> isl (fst (executeTool ev ''verify_otp'' a w))" by (simp add: tool)
    show "snd (executeTool ev ''verify_otp'' a w) = setAuthToken t (field p ''phoneNumber'') w2"
      by (simp add: tool)
    show "authToken (state (snd (executeTool ev ''verify_otp'' a w))) = t"
      by (simp add: tool)
    show "phoneNumber (state (snd (executeTool ev ''verify_otp'' a w))) = field p ''phoneNumber''"
      by (simp add: tool)
    from h obtain ph where "field p ''phoneNumber'' = JStr ph"
      using verify_parsed_phone by blast
    then show "is_set (field p ''phoneNumber'')" by (simp add: is_set_def)
    from ok show "isAuthenticated (snd (executeTool ev ''verify_otp'' a w))"
      by (simp add: tool isAuthenticated_def)
  }
next
  show "authToken (state (clearAuth w)) = JNull" by simp
  show "phoneNumber (state (clearAuth w)) = JNull" by simp
  show "\<not> isAuthenticated (clearAuth w)" by (simp add: isAuthenticated_def)
qed

text \<open>
  The theorem at work on a session that tries a wrong code, then the right one, and
  is then logged out.
\<close>

theorem authentication_is_atomic_witness:
  "state fresh_world = initial_state
   \<and> auth_atomic (state (run_ops (env_of backend_up)
        [ToolCall ''verify_otp'' (JObj [(''phoneNumber'', JStr ''+353861234567''),
                                         (''code'', JStr ''0000'')]),
         ToolCall ''verify_otp'' (JObj [(''phoneNumber'', JStr ''+353861234567''),
                                         (''code'', JStr ''1234'')]),
         ClearAuth] fresh_world))
   \<and> auth_atomic (state authed_world)
   \<and> auth_atomic (state (apply_op (env_of backend_up) (SetChatId ''chat-9'') authed_world))
   \<and> fst (executeTool (env_of backend_up) ''verify_otp''
            (JObj [(''phoneNumber'', JStr ''+353861234567''), (''code'', JStr ''0000'')])
            (session_world ''chat-1''))
       = Inl (Error ''Wrong code'')
   \<and> auth_kept (session_world ''chat-1'')
        (snd (executeTool (env_of backend_up) ''verify_otp''
            (JObj [(''phoneNumber'', JStr ''+353861234567''), (''code'', JStr ''0000'')])
            (session_world ''chat-1'')))
   \<and> \<not> isAuthenticated (snd (executeTool (env_of backend_up) ''verify_otp''
            (JObj [(''phoneNumber'', JStr ''+353861234567''), (''code'', JStr ''0000'')])
            (session_world ''chat-1'')))
   \<and> ensureSession (env_of backend_up) (session_world ''chat-1'')
       = (Inr (JStr ''chat-1''), session_world ''chat-1'')
   \<and> z_object_parse verifyOtpSchema
        (JObj [(''phoneNumber'', JStr ''+353861234567''), (''code'', JStr ''1234'')])
       = Inr [(''phoneNumber'', JStr ''+353861234567''), (''code'', JStr ''1234'')]
   \<and> fst (verifyOTP (env_of backend_up) (JStr ''+353861234567'') (JStr ''1234'')
            (JStr ''chat-1'') (session_world ''chat-1''))
       = Inr (JObj [(''success'', JBool True), (''token'', JStr ''secret'')])
   \<and> truthy (JBool True) \<and> truthy (JStr ''secret'')
   \<and> \<not> isl (fst (executeTool (env_of backend_up) ''verify_otp''
            (JObj [(''phoneNumber'', JStr ''+353861234567''), (''code'', JStr ''1234'')])
            (session_world ''chat-1'')))
   \<and> authToken (state (snd (executeTool (env_of backend_up) ''verify_otp''
            (JObj [(''phoneNumber'', JStr ''+353861234567''), (''code'', JStr ''1234'')])
            (session_world ''chat-1'')))) = JStr ''secret''
   \<and> phoneNumber (state (snd (executeTool (env_of backend_up) ''verify_otp''
            (JObj [(''phoneNumber'', JStr ''+353861234567''), (''code'', JStr ''1234'')])
            (session_world ''chat-1'')))) = JStr ''+353861234567''
   \<and> isAuthenticated (snd (executeTool (env_of backend_up) ''verify_otp''
            (JObj [(''phoneNumber'', JStr ''+353861234567''), (''code'', JStr ''1234'')])
            (session_world ''chat-1'')))
   \<and> z_object_parse verifyOtpSchema
        (JObj [(''phoneNumber'', JStr ''+353861234567''), (''code'', JStr ''0000'')])
       = Inr [(''phoneNumber'', JStr ''+353861234567''), (''code'', JStr ''0000'')]
   \<and> fst (verifyOTP (env_of backend_up) (JStr ''+353861234567'') (JStr ''0000'')
            (JStr ''chat-1'') (session_world ''chat-1''))
       = Inr (JObj [(''success'', JBool False), (''error'', JStr ''Wrong code'')])
   \<and> \<not> truthy (JBool False)
   \<and> fst (executeToolInternal (env_of backend_up) ''verify_otp''
            (JObj [(''phoneNumber'', JStr ''+353861234567''), (''code'', JStr ''0000'')])
            (session_world ''chat-1''))
       = Inl (Error ''Wrong code'')"
proof -
  let ?U = "env_of backend_up"
  let ?s = "session_world ''chat-1''"
  let ?bad = "JObj [(''phoneNumber'', JStr ''+353861234567''), (''code'', JStr ''0000'')]"
  let ?good = "JObj [(''phoneNumber'', JStr ''+353861234567''), (''code'', JStr ''1234'')]"
  let ?pb = "[(''phoneNumber'', JStr ''+353861234567''), (''code'', JStr ''0000'')]"
  let ?pg = "[(''phoneNumber'', JStr ''+353861234567''), (''code'', JStr ''1234'')]"
  let ?ok = "JObj [(''success'', JBool True), (''token'', JStr ''secret'')]"
  let ?no = "JObj [(''success'', JBool False), (''error'', JStr ''Wrong code'')]"
  let ?ops = "[ToolCall ''verify_otp'' ?bad, ToolCall ''verify_otp'' ?good, ClearAuth]"
  let ?vg = "verifyOTP ?U (field ?pg ''phoneNumber'') (field ?pg ''code'') (JStr ''chat-1'') ?s"
  let ?vb = "verifyOTP ?U (field ?pb ''phoneNumber'') (field ?pb ''code'') (JStr ''chat-1'') ?s"
  note T = authentication_is_atomic
  have i: "state fresh_world = initial_state" by code_simp
  have c1: "auth_atomic (state (run_ops ?U ?ops fresh_world))"
    using T [where ?w0.0 = fresh_world and ev = ?U and ops = ?ops] i by blast
  have a: "auth_atomic (state authed_world)" by code_simp
  have c2: "auth_atomic (state (apply_op ?U (SetChatId ''chat-9'') authed_world))"
    using T [where ev = ?U and w = authed_world and x = "SetChatId ''chat-9''"] a by blast
  let ?rb = "executeTool ?U ''verify_otp'' ?bad ?s"
  have b: "fst ?rb = Inl (Error ''Wrong code'')" by code_simp
  then have b': "?rb = (Inl (Error ''Wrong code''), snd ?rb)" by (simp add: prod_eq_iff)
  have c3: "auth_kept ?s (snd ?rb)"
    using T [where ev = ?U and a = ?bad and w = ?s and e = "Error ''Wrong code''" and w' = "snd ?rb"] b' by blast
  have "isAuthenticated (snd ?rb) = isAuthenticated ?s"
    using T [where ev = ?U and a = ?bad and w = ?s and e = "Error ''Wrong code''" and w' = "snd ?rb"] b' by blast
  moreover have "\<not> isAuthenticated ?s" by code_simp
  ultimately have c4: "\<not> isAuthenticated (snd ?rb)" by simp
  have e: "ensureSession ?U ?s = (Inr (JStr ''chat-1''), ?s)" by code_simp
  have pg: "z_object_parse verifyOtpSchema ?good = Inr ?pg" by code_simp
  have pb: "z_object_parse verifyOtpSchema ?bad = Inr ?pb" by code_simp
  have vg: "fst ?vg = Inr ?ok" by code_simp
  then have vg': "?vg = (Inr ?ok, snd ?vg)" by (simp add: prod_eq_iff)
  have vb: "fst ?vb = Inr ?no" by code_simp
  then have vb': "?vb = (Inr ?no, snd ?vb)" by (simp add: prod_eq_iff)
  have vgs: "fst (verifyOTP ?U (JStr ''+353861234567'') (JStr ''1234'') (JStr ''chat-1'') ?s)
               = Inr ?ok" by code_simp
  have vbs: "fst (verifyOTP ?U (JStr ''+353861234567'') (JStr ''0000'') (JStr ''chat-1'') ?s)
               = Inr ?no" by code_simp
  have g1: "getProp ?ok ''success'' = Inr (JBool True)" by simp
  have g2: "getProp ?ok ''token'' = Inr (JStr ''secret'')" by simp
  have g3: "getProp ?ok ''error'' = Inr JUndefined" by simp
  have n1: "getProp ?no ''success'' = Inr (JBool False)" by simp
  have n2: "getProp ?no ''token'' = Inr JUndefined" by simp
  have n3: "getProp ?no ''error'' = Inr (JStr ''Wrong code'')" by simp
  have tr: "truthy (JBool True) \<and> truthy (JStr ''secret'')" by simp
  have fl: "\<not> truthy (JBool False)" by simp
  note G = T [where ev = ?U and a = ?good and w = ?s and cid = "JStr ''chat-1''" and ?w1.0 = ?s
              and p = ?pg and result = ?ok and ?w2.0 = "snd ?vg" and s = "JBool True"
              and t = "JStr ''secret''" and err = JUndefined]
  note B = T [where ev = ?U and a = ?bad and w = ?s and cid = "JStr ''chat-1''" and ?w1.0 = ?s
              and p = ?pb and result = ?no and ?w2.0 = "snd ?vb" and s = "JBool False"
              and t = JUndefined and err = "JStr ''Wrong code''"]
  let ?rg = "executeTool ?U ''verify_otp'' ?good ?s"
  have s1: "\<not> isl (fst ?rg)" using G e pg vg' g1 g2 g3 tr by blast
  have s2: "authToken (state (snd ?rg)) = JStr ''secret''" using G e pg vg' g1 g2 g3 tr by blast
  have "phoneNumber (state (snd ?rg)) = field ?pg ''phoneNumber''"
    using G e pg vg' g1 g2 g3 tr by blast
  then have s3: "phoneNumber (state (snd ?rg)) = JStr ''+353861234567''"
    by (simp add: field_def)
  have s4: "isAuthenticated (snd ?rg)" using G e pg vg' g1 g2 g3 tr by blast
  have "executeToolInternal ?U ''verify_otp'' ?bad ?s =
          (Inl (Error (toString (js_or (JStr ''Wrong code'') (JStr ''OTP verification failed'')))),
           snd ?vb)"
    using B e pb vb' n1 n2 n3 fl by blast
  then have s5: "fst (executeToolInternal ?U ''verify_otp'' ?bad ?s) = Inl (Error ''Wrong code'')"
    by (simp add: js_or_def)
  from tr have tr1: "truthy (JBool True)" and tr2: "truthy (JStr ''secret'')" by simp_all
  from i c1 a c2 b c3 c4 e pg vgs tr1 tr2 s1 s2 s3 s4 pb vbs fl s5 show ?thesis
    by (intro conjI)
qed

subsection \<open>C5: errors at the protocol boundary\<close>

text \<open>
  Claim C5.  The call handler is a function from a request and a world to a result and a
  world: it has no way to throw.  Whatever \<open>executeTool\<close> throws (a schema error, a
  remote error, an unknown tool) becomes the result \<open>{content: [{type: "text", text:
  "Error: " + message}], isError: true}\<close>, and the world is the one the failed
  execution left; a result that \<open>executeTool\<close> returns is handed on unchanged.
\<close>

theorem tool_errors_become_results:
  "(executeTool ev name (nullish_or arguments (JObj [])) w = (Inl e, w') \<longrightarrow>
      callToolHandler ev name arguments w =
        (JObj [(''content'', text_content (JStr (''Error: '' @ message ev e))),
               (''isError'', JBool True)], w')
    \<and> getProp (fst (callToolHandler ev name arguments w)) ''isError'' = Inr (JBool True)
    \<and> getProp (fst (callToolHandler ev name arguments w)) ''content''
        = Inr (JArr [JObj [(''type'', JStr ''text''),
                           (''text'', JStr (''Error: '' @ message ev e))]]))
   \<and> (executeTool ev name (nullish_or arguments (JObj [])) w = (Inr r, w') \<longrightarrow>
      callToolHandler ev name arguments w = (r, w'))"
  by (simp add: callToolHandler_def text_content_def)

text \<open>
  The theorem at work on an unknown tool, on arguments that fail the schema, on an
  unreachable backend, and on a call that succeeds.
\<close>

theorem tool_errors_become_results_witness:
  "executeTool (env_of backend_up) ''order_pizza'' (nullish_or JUndefined (JObj []))
       (session_world ''chat-1'')
     = (Inl (Error ''Unknown tool: order_pizza''), session_world ''chat-1'')
   \<and> callToolHandler (env_of backend_up) ''order_pizza'' JUndefined (session_world ''chat-1'')
     = (JObj [(''content'', JArr [JObj [(''type'', JStr ''text''),
                                         (''text'', JStr ''Error: Unknown tool: order_pizza'')]]),
              (''isError'', JBool True)], session_world ''chat-1'')
   \<and> executeTool (env_of backend_up) ''search_menu'' (nullish_or (JObj []) (JObj []))
       (session_world ''chat-1'')
     = (Inl (ZodError [InvalidType ''string'' ''undefined'' [JStr ''query'']]),
        session_world ''chat-1'')
   \<and> fst (callToolHandler (env_of backend_up) ''search_menu'' (JObj [])
            (session_world ''chat-1''))
     = JObj [(''content'', JArr [JObj [(''type'', JStr ''text''),
                                        (''text'', JStr ''Error: invalid arguments'')]]),
             (''isError'', JBool True)]
   \<and> fst (executeTool (env_of backend_down) ''view_basket'' (nullish_or JNull (JObj []))
            (session_world ''chat-1''))
     = Inl (Error ''API Error (503): Service Unavailable'')
   \<and> fst (callToolHandler (env_of backend_down) ''view_basket'' JNull (session_world ''chat-1''))
     = JObj [(''content'', JArr [JObj [(''type'', JStr ''text''),
               (''text'', JStr ''Error: API Error (503): Service Unavailable'')]]),
             (''isError'', JBool True)]
   \<and> fst (executeTool (env_of backend_up) ''clear_basket'' (nullish_or (JObj []) (JObj []))
            (session_world ''chat-1''))
     = Inr cleared
   \<and> fst (callToolHandler (env_of backend_up) ''clear_basket'' (JObj [])
            (session_world ''chat-1'')) = cleared"
proof -
  let ?U = "env_of backend_up" and ?D = "env_of backend_down"
  let ?w = "session_world ''chat-1''"
  let ?z = "ZodError [InvalidType ''string'' ''undefined'' [JStr ''query'']]"
  let ?d = "Error ''API Error (503): Service Unavailable''"
  have 1: "executeTool ?U ''order_pizza'' (nullish_or JUndefined (JObj [])) ?w
             = (Inl (Error ''Unknown tool: order_pizza''), ?w)"
    by code_simp
  have 2: "executeTool ?U ''search_menu'' (nullish_or (JObj []) (JObj [])) ?w = (Inl ?z, ?w)"
    by code_simp
  have 3: "fst (executeTool ?D ''view_basket'' (nullish_or JNull (JObj [])) ?w) = Inl ?d"
    by code_simp
  then have e3: "executeTool ?D ''view_basket'' (nullish_or JNull (JObj [])) ?w
      = (Inl ?d, snd (executeTool ?D ''view_basket'' (nullish_or JNull (JObj [])) ?w))"
    by (simp add: prod_eq_iff)
  have 4: "fst (executeTool ?U ''clear_basket'' (nullish_or (JObj []) (JObj [])) ?w) = Inr cleared"
    by code_simp
  then have e4: "executeTool ?U ''clear_basket'' (nullish_or (JObj []) (JObj [])) ?w
      = (Inr cleared, snd (executeTool ?U ''clear_basket'' (nullish_or (JObj []) (JObj [])) ?w))"
    by (simp add: prod_eq_iff)
  have m2: "message ?U ?z = ''invalid arguments''" by code_simp
  have m3: "message ?D ?d = ''API Error (503): Service Unavailable''" by code_simp
  have m1: "message ?U (Error ''Unknown tool: order_pizza'') = ''Unknown tool: order_pizza''"
    by code_simp
  have c1: "callToolHandler ?U ''order_pizza'' JUndefined ?w
     = (JObj [(''content'', JArr [JObj [(''type'', JStr ''text''),
                                         (''text'', JStr ''Error: Unknown tool: order_pizza'')]]),
              (''isError'', JBool True)], ?w)"
    using tool_errors_become_results [of ?U "''order_pizza''" JUndefined ?w
            "Error ''Unknown tool: order_pizza''" ?w] 1 m1
    by (simp add: text_content_def)
  have c2: "fst (callToolHandler ?U ''search_menu'' (JObj []) ?w)
     = JObj [(''content'', JArr [JObj [(''type'', JStr ''text''),
                                        (''text'', JStr ''Error: invalid arguments'')]]),
             (''isError'', JBool True)]"
    using tool_errors_become_results [of ?U "''search_menu''" "JObj []" ?w ?z ?w] 2 m2
    by (simp add: text_content_def)
  have c3: "fst (callToolHandler ?D ''view_basket'' JNull ?w)
     = JObj [(''content'', JArr [JObj [(''type'', JStr ''text''),
               (''text'', JStr ''Error: API Error (503): Service Unavailable'')]]),
             (''isError'', JBool True)]"
    using tool_errors_become_results [of ?D "''view_basket''" JNull ?w ?d
            "snd (executeTool ?D ''view_basket'' (nullish_or JNull (JObj [])) ?w)"] e3 m3
    by (simp add: text_content_def)
  have c4: "fst (callToolHandler ?U ''clear_basket'' (JObj []) ?w) = cleared"
    using tool_errors_become_results [of ?U "''clear_basket''" "JObj []" ?w _
            "snd (executeTool ?U ''clear_basket'' (nullish_or (JObj []) (JObj [])) ?w)" cleared] e4
    by simp
  from 1 c1 2 c2 3 c3 4 c4 show ?thesis by (intro conjI)
qed

subsection \<open>C6: the durable snapshot\<close>

text \<open>
  Claim C6, as amended.  Take any session state, and a cache file that can be written.
  Saving the state and then initialising the module from the file gives, field by
  field, \<open>restored\<close> of what the field held: a field that is \<open>undefined\<close> comes back
  as its default (\<open>null\<close>, the empty list for the search results), every other value as
  \<open>JSON.parse (JSON.stringify v)\<close>, which is \<open>v\<close> itself when \<open>v\<close> is a JSON value.
  So a state whose four fields are JSON values (as the declared types
  \<open>string | null\<close> and \<open>any[]\<close> make them) comes back identical.  When the file cannot
  be written, saving leaves it as it was, and initialisation gives what it gave before.
  When the file is missing, cannot be read, or does not hold JSON, initialisation gives
  the all-empty default state; initialisation is a total function of the file, it
  cannot throw.
\<close>

theorem snapshot_round_trip:
  "(writable w \<longrightarrow>
      load_state (cache (saveState w)) =
        \<lparr>chatId = restored (chatId (state w)) JNull,
         authToken = restored (authToken (state w)) JNull,
         phoneNumber = restored (phoneNumber (state w)) JNull,
         searchResults = restored (searchResults (state w)) (JArr [])\<rparr>)
   \<and> (\<not> writable w \<longrightarrow> load_state (cache (saveState w)) = load_state (cache w))
   \<and> (is_json v \<longrightarrow> restored v d = v)
   \<and> restored JUndefined d = d
   \<and> (writable w \<and> is_json (chatId (state w)) \<and> is_json (authToken (state w))
      \<and> is_json (phoneNumber (state w)) \<and> is_json (searchResults (state w)) \<longrightarrow>
        load_state (cache (saveState w)) = state w)
   \<and> load_state Missing = initial_state
   \<and> load_state Unreadable = initial_state
   \<and> load_state Malformed = initial_state"
proof (intro conjI impI)
  assume "writable w"
  then show "load_state (cache (saveState w)) =
        \<lparr>chatId = restored (chatId (state w)) JNull,
         authToken = restored (authToken (state w)) JNull,
         phoneNumber = restored (phoneNumber (state w)) JNull,
         searchResults = restored (searchResults (state w)) (JArr [])\<rparr>"
    by (simp add: cache_saveState load_saved)
next
  assume "\<not> writable w"
  then show "load_state (cache (saveState w)) = load_state (cache w)"
    by (simp add: cache_saveState)
next
  assume "is_json v"
  then show "restored v d = v" by (rule restored_json)
next
  show "restored JUndefined d = d" by (simp add: restored_def)
next
  assume "writable w \<and> is_json (chatId (state w)) \<and> is_json (authToken (state w))
      \<and> is_json (phoneNumber (state w)) \<and> is_json (searchResults (state w))"
  then show "load_state (cache (saveState w)) = state w"
    by (simp add: cache_saveState load_snapshot)
qed (simp_all add: load_state_def)

text \<open>
  The claim as it was stated, for every session state, fails.  A backend that answers
  \<open>createSession\<close> with an object that has no \<open>chatId\<close> makes \<open>ensureSession\<close> store
  \<open>undefined\<close> as the session id; the snapshot that \<open>setChatId\<close> wrote then has no
  such key, and initialisation gives \<open>null\<close> for it.  The setter of the search results
  stores what it is given: an \<open>undefined\<close> in the list comes back as \<open>null\<close>.
\<close>

theorem snapshot_round_trip_counterexample:
  "state bare_world = \<lparr>chatId = JUndefined, authToken = JNull, phoneNumber = JNull,
                        searchResults = JArr []\<rparr>
   \<and> writable bare_world
   \<and> cache bare_world = Snapshot (JObj [(''authToken'', JNull), (''phoneNumber'', JNull),
                                       (''searchResults'', JArr [])])
   \<and> load_state (cache (saveState bare_world)) = initial_state
   \<and> chatId (load_state (cache (saveState bare_world))) = JNull
   \<and> load_state (cache (saveState bare_world)) \<noteq> state bare_world
   \<and> searchResults (state (run_ops (env_of backend_up) [SetSearchResults [JUndefined]]
        fresh_world)) = JArr [JUndefined]
   \<and> writable (run_ops (env_of backend_up) [SetSearchResults [JUndefined]] fresh_world)
   \<and> searchResults (load_state (cache (saveState
        (run_ops (env_of backend_up) [SetSearchResults [JUndefined]] fresh_world))))
       = JArr [JNull]
   \<and> load_state (cache (saveState
        (run_ops (env_of backend_up) [SetSearchResults [JUndefined]] fresh_world)))
       \<noteq> state (run_ops (env_of backend_up) [SetSearchResults [JUndefined]] fresh_world)"
  by code_simp

text \<open>
  The theorem at work: on an authenticated session that has searched the menu, saved by
  the setter that stored the search results; on a session whose search results hold an
  \<open>undefined\<close>; on an authenticated session whose cache file cannot be written; and on
  a session id.
\<close>

theorem snapshot_round_trip_witness:
  "writable (setSearchResults (JArr pizza_items) authed_world)
   \<and> is_json (chatId (state (setSearchResults (JArr pizza_items) authed_world)))
   \<and> is_json (authToken (state (setSearchResults (JArr pizza_items) authed_world)))
   \<and> is_json (phoneNumber (state (setSearchResults (JArr pizza_items) authed_world)))
   \<and> is_json (searchResults (state (setSearchResults (JArr pizza_items) authed_world)))
   \<and> load_state (cache (saveState (setSearchResults (JArr pizza_items) authed_world)))
       = \<lparr>chatId = JStr ''chat-1'', authToken = JStr ''secret'',
          phoneNumber = JStr ''+353861234567'', searchResults = JArr pizza_items\<rparr>
   \<and> load_state (cache (setSearchResults (JArr pizza_items) authed_world))
       = state (setSearchResults (JArr pizza_items) authed_world)
   \<and> writable (setSearchResults (JArr [JUndefined, JNum 3]) (session_world ''chat-1''))
   \<and> state (setSearchResults (JArr [JUndefined, JNum 3]) (session_world ''chat-1''))
       = \<lparr>chatId = JStr ''chat-1'', authToken = JNull, phoneNumber = JNull,
          searchResults = JArr [JUndefined, JNum 3]\<rparr>
   \<and> load_state (cache (saveState
        (setSearchResults (JArr [JUndefined, JNum 3]) (session_world ''chat-1''))))
       = \<lparr>chatId = JStr ''chat-1'', authToken = JNull, phoneNumber = JNull,
          searchResults = JArr [JNull, JNum 3]\<rparr>
   \<and> \<not> writable (authed_world\<lparr>writable := False\<rparr>)
   \<and> load_state (cache (saveState (authed_world\<lparr>writable := False\<rparr>))) = initial_state
   \<and> is_json (JStr ''chat-1'')
   \<and> restored (JStr ''chat-1'') JNull = JStr ''chat-1''"
proof -
  let ?w = "setSearchResults (JArr pizza_items) authed_world"
  let ?u = "setSearchResults (JArr [JUndefined, JNum 3]) (session_world ''chat-1'')"
  let ?n = "authed_world\<lparr>writable := False\<rparr>"
  note T = snapshot_round_trip [where v = "JStr ''chat-1''" and d = JNull]
  have h1: "writable ?w" by code_simp
  have h2: "is_json (chatId (state ?w))" by code_simp
  have h3: "is_json (authToken (state ?w))" by code_simp
  have h4: "is_json (phoneNumber (state ?w))" by code_simp
  have h5: "is_json (searchResults (state ?w))" by code_simp
  have s: "state ?w = \<lparr>chatId = JStr ''chat-1'', authToken = JStr ''secret'',
          phoneNumber = JStr ''+353861234567'', searchResults = JArr pizza_items\<rparr>"
    by code_simp
  have i: "saveState ?w = ?w" by code_simp
  have r: "load_state (cache (saveState ?w)) = state ?w"
    using T [where w = ?w] h1 h2 h3 h4 h5 by blast
  have a: "load_state (cache (saveState ?w))
       = \<lparr>chatId = JStr ''chat-1'', authToken = JStr ''secret'',
          phoneNumber = JStr ''+353861234567'', searchResults = JArr pizza_items\<rparr>"
    using r s by simp
  have b: "load_state (cache ?w) = state ?w"
    using r i by simp
  have u1: "writable ?u" by code_simp
  have u2: "state ?u = \<lparr>chatId = JStr ''chat-1'', authToken = JNull, phoneNumber = JNull,
          searchResults = JArr [JUndefined, JNum 3]\<rparr>"
    by code_simp
  have u3: "\<lparr>chatId = restored (chatId (state ?u)) JNull,
         authToken = restored (authToken (state ?u)) JNull,
         phoneNumber = restored (phoneNumber (state ?u)) JNull,
         searchResults = restored (searchResults (state ?u)) (JArr [])\<rparr>
       = \<lparr>chatId = JStr ''chat-1'', authToken = JNull, phoneNumber = JNull,
          searchResults = JArr [JNull, JNum 3]\<rparr>"
    by code_simp
  have u4: "load_state (cache (saveState ?u)) =
        \<lparr>chatId = restored (chatId (state ?u)) JNull,
         authToken = restored (authToken (state ?u)) JNull,
         phoneNumber = restored (phoneNumber (state ?u)) JNull,
         searchResults = restored (searchResults (state ?u)) (JArr [])\<rparr>"
    using T [where w = ?u] u1 by blast
  have u: "load_state (cache (saveState ?u))
       = \<lparr>chatId = JStr ''chat-1'', authToken = JNull, phoneNumber = JNull,
          searchResults = JArr [JNull, JNum 3]\<rparr>"
    using u4 u3 by (rule trans)
  have n1: "\<not> writable ?n" by code_simp
  have n2: "load_state (cache ?n) = initial_state" by code_simp
  have n3: "load_state (cache (saveState ?n)) = load_state (cache ?n)"
    using T [where w = ?n] n1 by blast
  have n: "load_state (cache (saveState ?n)) = initial_state"
    using n3 n2 by (rule trans)
  have j1: "is_json (JStr ''chat-1'')" by code_simp
  have j: "restored (JStr ''chat-1'') JNull = JStr ''chat-1''"
    using T [where w = ?w] j1 by blast
  from h1 h2 h3 h4 h5 a b u1 u2 u n1 n j1 j show ?thesis by (intro conjI)
qed

subsection \<open>C7: clear_basket reports the empty basket\<close>

text \<open>
  Claim C7.  Whenever a \<open>clear_basket\<close> invocation succeeds, whether at the first
  attempt or at the retry, the structured result reports the fixed empty basket (no
  items, total price zero), whatever the basket held, and no \<open>getBasket\<close> request is
  sent to the backend during the invocation.
\<close>

theorem clear_basket_reports_empty:
  assumes "executeTool ev ''clear_basket'' a w = (Inr r, w')"
  shows "r = cleared
       \<and> path_get r [''structuredContent'', ''basket''] =
           Inr (JObj [(''basketMenuItems'', JArr []), (''totalPrice'', JNum 0)])
       \<and> (\<forall>q \<in> set (new_requests w w'). action q \<noteq> ''getBasket'')"
proof (intro conjI)
  from assms show r: "r = cleared"
    by (cases rule: executeTool_cases) (auto dest: clear_internal_result)
  then show "path_get r [''structuredContent'', ''basket''] =
           Inr (JObj [(''basketMenuItems'', JArr []), (''totalPrice'', JNum 0)])"
    by (simp add: cleared_def)
  have "sends_only [''createSession'', ''clearBasket''] w w'"
    using clear_tool_sends assms by (rule keepsD)
  then show "\<forall>q \<in> set (new_requests w w'). action q \<noteq> ''getBasket''"
    by (auto dest: sends_only_new)
qed

text \<open>
  The theorem at work on a call that succeeds at its retry: the stored session had
  expired.
\<close>

theorem clear_basket_reports_empty_witness:
  "fst (executeTool (env_of backend_forgot) ''clear_basket'' (JObj []) (session_world ''stale''))
     = Inr cleared
   \<and> path_get cleared [''structuredContent'', ''basket''] =
           Inr (JObj [(''basketMenuItems'', JArr []), (''totalPrice'', JNum 0)])
   \<and> list_all (\<lambda>q. action q \<noteq> ''getBasket'')
        (new_requests (session_world ''stale'')
          (snd (executeTool (env_of backend_forgot) ''clear_basket'' (JObj [])
                 (session_world ''stale''))))
   \<and> map action (sent (snd (executeTool (env_of backend_forgot) ''clear_basket'' (JObj [])
                 (session_world ''stale''))))
       = [''clearBasket'', ''createSession'', ''clearBasket'']"
proof -
  let ?run = "executeTool (env_of backend_forgot) ''clear_basket'' (JObj []) (session_world ''stale'')"
  have res: "fst ?run = Inr cleared"
    by code_simp
  then have run: "?run = (Inr cleared, snd ?run)"
    by (simp add: prod_eq_iff)
  have log: "map action (sent (snd ?run)) = [''clearBasket'', ''createSession'', ''clearBasket'']"
    by code_simp
  show ?thesis using res log clear_basket_reports_empty [OF run] by (simp add: list_all_iff)
qed

subsection \<open>C8: searchMenu accepts both wire shapes\<close>

text \<open>
  Claim C8.  Let the backend answer the \<open>searchMenu\<close> request with a JSON value.  If
  the value is a bare sequence, \<open>searchMenu\<close> returns that sequence; if it is an
  object whose \<open>items\<close> property holds a sequence, \<open>searchMenu\<close> returns that same
  sequence; if it is an object without an \<open>items\<close> property, \<open>searchMenu\<close> returns
  the empty sequence.  In none of these cases does it throw.
\<close>

theorem searchMenu_normalises:
  assumes "callApi ev ''searchMenu'' [cid, query] tok w = (Inr result, w')"
  shows "(result = JArr xs \<longrightarrow> searchMenu ev cid query tok w = (Inr (JArr xs), w'))
       \<and> (result = JObj kvs \<and> map_of kvs ''items'' = Some (JArr xs) \<longrightarrow>
            searchMenu ev cid query tok w = (Inr (JArr xs), w'))
       \<and> (result = JObj kvs \<and> map_of kvs ''items'' = None \<longrightarrow>
            searchMenu ev cid query tok w = (Inr (JArr []), w'))"
  using assms
  by (simp add: searchMenu_def and_then_Inr isArray_def returns_def js_or_def)

text \<open>The theorem at work on the three shapes.\<close>

theorem searchMenu_normalises_witness:
  "callApi (env_of (backend_const (HttpOk (JArr pizza_items)))) ''searchMenu''
       [JStr ''chat-1'', JStr ''pizza''] JUndefined (session_world ''chat-1'')
     = (Inr (JArr pizza_items),
        (session_world ''chat-1'')\<lparr>sent := [\<lparr>action = ''searchMenu'',
           args = [JStr ''chat-1'', JStr ''pizza''], authorization = None\<rparr>]\<rparr>)
   \<and> searchMenu (env_of (backend_const (HttpOk (JArr pizza_items))))
       (JStr ''chat-1'') (JStr ''pizza'') JUndefined (session_world ''chat-1'')
     = (Inr (JArr pizza_items),
        (session_world ''chat-1'')\<lparr>sent := [\<lparr>action = ''searchMenu'',
           args = [JStr ''chat-1'', JStr ''pizza''], authorization = None\<rparr>]\<rparr>)
   \<and> callApi (env_of (backend_const (HttpOk (JObj [(''items'', JArr pizza_items)]))))
       ''searchMenu'' [JStr ''chat-1'', JStr ''pizza''] JUndefined (session_world ''chat-1'')
     = (Inr (JObj [(''items'', JArr pizza_items)]),
        (session_world ''chat-1'')\<lparr>sent := [\<lparr>action = ''searchMenu'',
           args = [JStr ''chat-1'', JStr ''pizza''], authorization = None\<rparr>]\<rparr>)
   \<and> map_of [(''items'', JArr pizza_items)] ''items'' = Some (JArr pizza_items)
   \<and> searchMenu (env_of (backend_const (HttpOk (JObj [(''items'', JArr pizza_items)]))))
       (JStr ''chat-1'') (JStr ''pizza'') JUndefined (session_world ''chat-1'')
     = (Inr (JArr pizza_items),
        (session_world ''chat-1'')\<lparr>sent := [\<lparr>action = ''searchMenu'',
           args = [JStr ''chat-1'', JStr ''pizza''], authorization = None\<rparr>]\<rparr>)
   \<and> callApi (env_of (backend_const (HttpOk (JObj [(''total'', JNum 0)]))))
       ''searchMenu'' [JStr ''chat-1'', JStr ''pizza''] JUndefined (session_world ''chat-1'')
     = (Inr (JObj [(''total'', JNum 0)]),
        (session_world ''chat-1'')\<lparr>sent := [\<lparr>action = ''searchMenu'',
           args = [JStr ''chat-1'', JStr ''pizza''], authorization = None\<rparr>]\<rparr>)
   \<and> map_of [(''total'', JNum 0)] ''items'' = None
   \<and> searchMenu (env_of (backend_const (HttpOk (JObj [(''total'', JNum 0)]))))
       (JStr ''chat-1'') (JStr ''pizza'') JUndefined (session_world ''chat-1'')
     = (Inr (JArr []),
        (session_world ''chat-1'')\<lparr>sent := [\<lparr>action = ''searchMenu'',
           args = [JStr ''chat-1'', JStr ''pizza''], authorization = None\<rparr>]\<rparr>)"
proof -
  let ?w = "session_world ''chat-1''"
  let ?w' = "?w\<lparr>sent := [\<lparr>action = ''searchMenu'',
           args = [JStr ''chat-1'', JStr ''pizza''], authorization = None\<rparr>]\<rparr>"
  let ?A = "env_of (backend_const (HttpOk (JArr pizza_items)))"
  let ?B = "env_of (backend_const (HttpOk (JObj [(''items'', JArr pizza_items)])))"
  let ?C = "env_of (backend_const (HttpOk (JObj [(''total'', JNum 0)])))"
  have a: "callApi ?A ''searchMenu'' [JStr ''chat-1'', JStr ''pizza''] JUndefined ?w
             = (Inr (JArr pizza_items), ?w')" by code_simp
  have b: "callApi ?B ''searchMenu'' [JStr ''chat-1'', JStr ''pizza''] JUndefined ?w
             = (Inr (JObj [(''items'', JArr pizza_items)]), ?w')" by code_simp
  have c: "callApi ?C ''searchMenu'' [JStr ''chat-1'', JStr ''pizza''] JUndefined ?w
             = (Inr (JObj [(''total'', JNum 0)]), ?w')" by code_simp
  have mb: "map_of [(''items'', JArr pizza_items)] ''items'' = Some (JArr pizza_items)" by simp
  have mc: "map_of [(''total'', JNum 0)] ''items'' = None" by simp
  have ra: "searchMenu ?A (JStr ''chat-1'') (JStr ''pizza'') JUndefined ?w
              = (Inr (JArr pizza_items), ?w')"
    using searchMenu_normalises [OF a, of pizza_items] by simp
  have rb: "searchMenu ?B (JStr ''chat-1'') (JStr ''pizza'') JUndefined ?w
              = (Inr (JArr pizza_items), ?w')"
    using searchMenu_normalises [OF b, of pizza_items "[(''items'', JArr pizza_items)]"] mb
    by simp
  have rc: "searchMenu ?C (JStr ''chat-1'') (JStr ''pizza'') JUndefined ?w
              = (Inr (JArr []), ?w')"
    using searchMenu_normalises [OF c, of _ "[(''total'', JNum 0)]"] mc by simp
  from a ra b mb rb c mc rc show ?thesis by (intro conjI)
qed

subsection \<open>C9: remove_from_basket does not consult the last search\<close>

text \<open>
  Claim C9, as amended.  \<open>remove_from_basket\<close> never checks the id against the
  last-search cache.  For every cache and every arguments that pass the schema: once
  \<open>ensureSession\<close> has yielded a session id, the request that removes the item is
  sent to the backend.  And the cache has no influence at all: for every tool other
  than \<open>add_to_basket\<close>, running the invocation with any other cache gives the same
  result or error and sends the same requests.
\<close>

theorem remove_from_basket_unvalidated:
  "(z_object_parse removeFromBasketSchema a = Inr p
      \<and> ensureSession ev w = (Inr cid, w1) \<longrightarrow>
        remove_request ev cid (authToken (state w)) p
          \<in> set (new_requests w (snd (executeTool ev ''remove_from_basket'' a w))))
   \<and> (name \<noteq> ''add_to_basket'' \<longrightarrow>
        fst (executeTool ev name a (w\<lparr>state := (state w)\<lparr>searchResults := c\<rparr>\<rparr>))
          = fst (executeTool ev name a w)
      \<and> sent (snd (executeTool ev name a (w\<lparr>state := (state w)\<lparr>searchResults := c\<rparr>\<rparr>)))
          = sent (snd (executeTool ev name a w)))"
proof (intro conjI impI)
  assume "z_object_parse removeFromBasketSchema a = Inr p
      \<and> ensureSession ev w = (Inr cid, w1)"
  then show "remove_request ev cid (authToken (state w)) p
          \<in> set (new_requests w (snd (executeTool ev ''remove_from_basket'' a w)))"
    using remove_forwarded [of a p ev w cid w1] by blast
next
  assume n: "name \<noteq> ''add_to_basket''"
  from cache_independent [OF n, where ev = ev and a = a and w = w and c = c]
  show "fst (executeTool ev name a (w\<lparr>state := (state w)\<lparr>searchResults := c\<rparr>\<rparr>))
          = fst (executeTool ev name a w)" ..
  from cache_independent [OF n, where ev = ev and a = a and w = w and c = c]
  show "sent (snd (executeTool ev name a (w\<lparr>state := (state w)\<lparr>searchResults := c\<rparr>\<rparr>)))
          = sent (snd (executeTool ev name a w))" ..
qed

text \<open>
  The claim as first stated said that every call whose arguments pass the schema is
  forwarded to the basket mutation.  On a fresh world with the backend unreachable the
  arguments pass the schema, yet the only request sent is the one that asks for a
  session: the call fails in \<open>ensureSession\<close> and no basket mutation is attempted.
\<close>

theorem remove_from_basket_counterexample:
  "z_object_parse removeFromBasketSchema (JObj [(''menuItemId'', JNum 1)])
     = Inr [(''menuItemId'', JNum 1), (''quantity'', JUndefined)]
   \<and> map action (sent (snd (executeTool (env_of backend_down) ''remove_from_basket''
                               (JObj [(''menuItemId'', JNum 1)]) fresh_world)))
     = [''createSession'']
   \<and> fst (executeTool (env_of backend_down) ''remove_from_basket''
            (JObj [(''menuItemId'', JNum 1)]) fresh_world)
     = Inl (Error ''API Error (503): Service Unavailable'')"
  by code_simp

text \<open>
  The theorem at work: with the ids 1, 2 and 3 in the cache, the removal of id 42 goes
  to the backend, and the outcome is the one an empty cache gives.
\<close>

theorem remove_from_basket_unvalidated_witness:
  "z_object_parse removeFromBasketSchema (JObj [(''menuItemId'', JNum 42)])
     = Inr [(''menuItemId'', JNum 42), (''quantity'', JUndefined)]
   \<and> ensureSession (env_of backend_up) searched_world = (Inr (JStr ''chat-1''), searched_world)
   \<and> \<lparr>action = ''updateBasket'',
       args = [JStr ''chat-1'',
               JObj [(''removeMenuItems'',
                      JArr [JObj [(''menuItemId'', JNum 42), (''quantity'', JNum 1)]])]],
       authorization = None\<rparr>
       \<in> set (new_requests searched_world
                 (snd (executeTool (env_of backend_up) ''remove_from_basket''
                         (JObj [(''menuItemId'', JNum 42)]) searched_world)))
   \<and> ''remove_from_basket'' \<noteq> ''add_to_basket''
   \<and> searched_world\<lparr>state := (state searched_world)\<lparr>searchResults := JArr []\<rparr>\<rparr>
       = session_world ''chat-1''
   \<and> fst (executeTool (env_of backend_up) ''remove_from_basket''
            (JObj [(''menuItemId'', JNum 42)]) (session_world ''chat-1''))
     = fst (executeTool (env_of backend_up) ''remove_from_basket''
            (JObj [(''menuItemId'', JNum 42)]) searched_world)
   \<and> sent (snd (executeTool (env_of backend_up) ''remove_from_basket''
            (JObj [(''menuItemId'', JNum 42)]) (session_world ''chat-1'')))
     = sent (snd (executeTool (env_of backend_up) ''remove_from_basket''
            (JObj [(''menuItemId'', JNum 42)]) searched_world))"
proof -
  let ?U = "env_of backend_up"
  let ?a = "JObj [(''menuItemId'', JNum 42)]"
  let ?p = "[(''menuItemId'', JNum 42), (''quantity'', JUndefined)]"
  have 1: "z_object_parse removeFromBasketSchema ?a = Inr ?p" by code_simp
  have 2: "ensureSession ?U searched_world = (Inr (JStr ''chat-1''), searched_world)"
    by code_simp
  have r: "remove_request ?U (JStr ''chat-1'') (authToken (state searched_world)) ?p
      = \<lparr>action = ''updateBasket'',
         args = [JStr ''chat-1'',
                 JObj [(''removeMenuItems'',
                        JArr [JObj [(''menuItemId'', JNum 42), (''quantity'', JNum 1)]])]],
         authorization = None\<rparr>" by code_simp
  note T = remove_from_basket_unvalidated [of ?a ?p ?U searched_world "JStr ''chat-1''"
             searched_world "''remove_from_basket''" "JArr []"]
  have "remove_request ?U (JStr ''chat-1'') (authToken (state searched_world)) ?p
          \<in> set (new_requests searched_world
                    (snd (executeTool ?U ''remove_from_basket'' ?a searched_world)))"
    using T 1 2 by blast
  then have 3: "\<lparr>action = ''updateBasket'',
       args = [JStr ''chat-1'',
               JObj [(''removeMenuItems'',
                      JArr [JObj [(''menuItemId'', JNum 42), (''quantity'', JNum 1)]])]],
       authorization = None\<rparr>
       \<in> set (new_requests searched_world
                 (snd (executeTool ?U ''remove_from_basket'' ?a searched_world)))"
    unfolding r .
  have 4: "''remove_from_basket'' \<noteq> ''add_to_basket''" by simp
  have 5: "searched_world\<lparr>state := (state searched_world)\<lparr>searchResults := JArr []\<rparr>\<rparr>
       = session_world ''chat-1''" by code_simp
  have 6: "fst (executeTool ?U ''remove_from_basket'' ?a (session_world ''chat-1''))
     = fst (executeTool ?U ''remove_from_basket'' ?a searched_world)"
    using T 4 unfolding 5 by blast
  have 7: "sent (snd (executeTool ?U ''remove_from_basket'' ?a (session_world ''chat-1'')))
     = sent (snd (executeTool ?U ''remove_from_basket'' ?a searched_world))"
    using T 4 unfolding 5 by blast
  from 1 2 3 4 5 6 7 show ?thesis by (intro conjI)
qed

subsection \<open>C10: the session comes first\<close>

text \<open>
  Claim C10.  Every tool invocation runs \<open>ensureSession\<close> before anything that depends
  on the tool: if \<open>ensureSession\<close> throws, the invocation throws that error whatever
  the name and the arguments are, and if it returns, the \<open>switch\<close> over the name runs
  on the world it left.  For a name the executor does not know: once
  \<open>ensureSession\<close> has returned, the invocation fails with \<open>Unknown tool: name\<close>; when
  no session id is stored, the one request the invocation sends asks the backend for a
  guest session, and when the backend creates it, the new id is in the Session Store
  afterwards (and in the cache file, when it can be written) although the invocation
  failed; and in every case auth token, phone number and last search results are what
  they were.
\<close>

theorem session_before_dispatch:
  "(ensureSession ev w = (Inl e, w1) \<longrightarrow> executeToolInternal ev name a w = (Inl e, w1))
   \<and> (ensureSession ev w = (Inr cid, w2) \<longrightarrow>
        executeToolInternal ev name a w = dispatch ev name cid (authToken (state w2)) a w2)
   \<and> (name \<notin> set tool_names \<longrightarrow>
        same_but_chatId w (snd (executeToolInternal ev name a w))
      \<and> (ensureSession ev w = (Inr cid, w2) \<longrightarrow>
           executeToolInternal ev name a w = (Inl (Error (''Unknown tool: '' @ name)), w2))
      \<and> (\<not> truthy (chatId (state w)) \<longrightarrow>
           sent (snd (executeToolInternal ev name a w)) = sent w @ [guest_session_request ev])
      \<and> (\<not> truthy (chatId (state w))
           \<and> backend ev (sent w @ [guest_session_request ev]) = HttpOk res
           \<and> getProp res ''chatId'' = Inr c \<longrightarrow>
           fst (executeToolInternal ev name a w) = Inl (Error (''Unknown tool: '' @ name))
         \<and> chatId (state (snd (executeToolInternal ev name a w))) = c
         \<and> sent (snd (executeToolInternal ev name a w)) = sent w @ [guest_session_request ev]
         \<and> (writable w \<longrightarrow>
              cache (snd (executeToolInternal ev name a w))
                = Snapshot (snapshot_of (state (snd (executeToolInternal ev name a w)))))))"
proof (intro conjI impI)
  assume "ensureSession ev w = (Inl e, w1)"
  then show "executeToolInternal ev name a w = (Inl e, w1)" by (rule session_first)
next
  assume "ensureSession ev w = (Inr cid, w2)"
  then show "executeToolInternal ev name a w = dispatch ev name cid (authToken (state w2)) a w2"
    by (simp add: executeToolInternal_alt)
next
  assume "name \<notin> set tool_names"
  then show "same_but_chatId w (snd (executeToolInternal ev name a w))"
    by (rule unknown_same_but_chatId)
next
  assume "name \<notin> set tool_names" and "ensureSession ev w = (Inr cid, w2)"
  then show "executeToolInternal ev name a w = (Inl (Error (''Unknown tool: '' @ name)), w2)"
    by (rule unknown_after_session)
next
  assume n: "name \<notin> set tool_names" and f: "\<not> truthy (chatId (state w))"
  obtain x w3 where es: "ensureSession ev w = (x, w3)" by (cases "ensureSession ev w")
  then have "sent w3 = sent w @ [guest_session_request ev]"
    using f by (auto simp: ensureSession_new Let_def split: response.splits sum.splits)
  with n es show "sent (snd (executeToolInternal ev name a w)) = sent w @ [guest_session_request ev]"
    by (cases x) (simp_all add: session_first unknown_after_session)
next
  assume n: "name \<notin> set tool_names"
    and h: "\<not> truthy (chatId (state w))
           \<and> backend ev (sent w @ [guest_session_request ev]) = HttpOk res
           \<and> getProp res ''chatId'' = Inr c"
  let ?w1 = "setChatId c (w\<lparr>sent := sent w @ [guest_session_request ev]\<rparr>)"
  from h have "ensureSession ev w = (Inr c, ?w1)" by (simp add: ensureSession_created)
  with n have run: "executeToolInternal ev name a w = (Inl (Error (''Unknown tool: '' @ name)), ?w1)"
    by (rule unknown_after_session)
  show "fst (executeToolInternal ev name a w) = Inl (Error (''Unknown tool: '' @ name))"
    by (simp add: run)
  show "chatId (state (snd (executeToolInternal ev name a w))) = c"
    by (simp add: run)
  show "sent (snd (executeToolInternal ev name a w)) = sent w @ [guest_session_request ev]"
    by (simp add: run)
  assume "writable w"
  then show "cache (snd (executeToolInternal ev name a w))
                = Snapshot (snapshot_of (state (snd (executeToolInternal ev name a w))))"
    by (simp add: run setChatId_def cache_saveState)
qed

text \<open>
  The theorem at work: a call with arguments that do not even fit the schema, made
  while the backend is unreachable, fails with the error of the session creation; a
  call of an unknown tool on a fresh world leaves a session id behind.
\<close>

theorem session_before_dispatch_witness:
  "ensureSession (env_of backend_down) fresh_world
     = (Inl (Error ''API Error (503): Service Unavailable''),
        fresh_world\<lparr>sent := [guest_session_request (env_of backend_down)]\<rparr>)
   \<and> executeToolInternal (env_of backend_down) ''search_menu'' (JNum 5) fresh_world
     = (Inl (Error ''API Error (503): Service Unavailable''),
        fresh_world\<lparr>sent := [guest_session_request (env_of backend_down)]\<rparr>)
   \<and> ''order_pizza'' \<notin> set tool_names
   \<and> \<not> truthy (chatId (state fresh_world))
   \<and> backend (env_of backend_up) (sent fresh_world @ [guest_session_request (env_of backend_up)])
       = HttpOk (JObj [(''chatId'', JStr ''chat-1'')])
   \<and> getProp (JObj [(''chatId'', JStr ''chat-1'')]) ''chatId'' = Inr (JStr ''chat-1'')
   \<and> writable fresh_world
   \<and> ensureSession (env_of backend_up) fresh_world
     = (Inr (JStr ''chat-1''),
        setChatId (JStr ''chat-1'')
          (fresh_world\<lparr>sent := [guest_session_request (env_of backend_up)]\<rparr>))
   \<and> executeToolInternal (env_of backend_up) ''order_pizza'' (JObj []) fresh_world
     = (Inl (Error ''Unknown tool: order_pizza''),
        setChatId (JStr ''chat-1'')
          (fresh_world\<lparr>sent := [guest_session_request (env_of backend_up)]\<rparr>))
   \<and> same_but_chatId fresh_world
        (snd (executeToolInternal (env_of backend_up) ''order_pizza'' (JObj []) fresh_world))
   \<and> chatId (state (snd (executeToolInternal (env_of backend_up) ''order_pizza'' (JObj [])
                            fresh_world))) = JStr ''chat-1''
   \<and> cache (snd (executeToolInternal (env_of backend_up) ''order_pizza'' (JObj []) fresh_world))
     = Snapshot (JObj [(''chatId'', JStr ''chat-1''), (''authToken'', JNull),
                       (''phoneNumber'', JNull), (''searchResults'', JArr [])])"
proof -
  let ?D = "env_of backend_down" and ?U = "env_of backend_up"
  let ?wd = "fresh_world\<lparr>sent := [guest_session_request ?D]\<rparr>"
  let ?wu = "setChatId (JStr ''chat-1'') (fresh_world\<lparr>sent := [guest_session_request ?U]\<rparr>)"
  let ?res = "JObj [(''chatId'', JStr ''chat-1'')]"
  let ?run = "executeToolInternal ?U ''order_pizza'' (JObj []) fresh_world"
  have d: "ensureSession ?D fresh_world
             = (Inl (Error ''API Error (503): Service Unavailable''), ?wd)" by code_simp
  have n: "''order_pizza'' \<notin> set tool_names" by code_simp
  have t: "\<not> truthy (chatId (state fresh_world))" by code_simp
  have b: "backend ?U (sent fresh_world @ [guest_session_request ?U]) = HttpOk ?res"
    by code_simp
  have g: "getProp ?res ''chatId'' = Inr (JStr ''chat-1'')" by simp
  have wr: "writable fresh_world" by code_simp
  have u: "ensureSession ?U fresh_world = (Inr (JStr ''chat-1''), ?wu)" by code_simp
  note D = session_before_dispatch [of ?D fresh_world _ ?wd "''search_menu''" "JNum 5"]
  note U = session_before_dispatch [of ?U fresh_world _ _ "''order_pizza''" "JObj []"
             "JStr ''chat-1''" ?wu ?res "JStr ''chat-1''"]
  have c1: "executeToolInternal ?D ''search_menu'' (JNum 5) fresh_world
     = (Inl (Error ''API Error (503): Service Unavailable''), ?wd)"
    using D d by blast
  have "?run = (Inl (Error (''Unknown tool: '' @ ''order_pizza'')), ?wu)"
    using U n u by blast
  then have c2: "?run = (Inl (Error ''Unknown tool: order_pizza''), ?wu)"
    by simp
  have c3: "same_but_chatId fresh_world (snd ?run)" using U n by blast
  have c4: "chatId (state (snd ?run)) = JStr ''chat-1''" using U n t b g by blast
  have "cache (snd ?run) = Snapshot (snapshot_of (state (snd ?run)))"
    using U n t b g wr by blast
  moreover have "snapshot_of (state (snd ?run))
      = JObj [(''chatId'', JStr ''chat-1''), (''authToken'', JNull),
              (''phoneNumber'', JNull), (''searchResults'', JArr [])]"
    by code_simp
  ultimately have c5: "cache (snd ?run)
     = Snapshot (JObj [(''chatId'', JStr ''chat-1''), (''authToken'', JNull),
                       (''phoneNumber'', JNull), (''searchResults'', JArr [])])"
    by simp
  from d c1 n t b g wr u c2 c3 c4 c5 show ?thesis by (intro conjI)
qed


end
